theory Spec2Isabelle
  imports Complex_Main "HOL-Library.Sublist"
begin

section \<open>Conventions of the embedding\<close>

text \<open>
  The controllers of the rental back end are embedded as functions from a database state
  and a request to a response and a new database state.

  \<^item> A JavaScript \<open>Number\<close> that carries money, hours or a rating is a rational (\<open>rat\<close>):
    arithmetic is exact, \<open>NaN\<close> and the infinities are not values of the model, and
    \<open>Math.floor\<close> is \<open>floor\<close>.
  \<^item> A string is a list of bytes; the Thai literals of the source are given by their
    UTF-8 bytes.
  \<^item> A Mongoose collection is a list of documents; a record field \<open>x_name\<close> stands for
    the document field \<open>name\<close> (\<open>b_\<close> booking, \<open>t_\<close> transaction, \<open>p_\<close> payment,
    \<open>s_\<close> service, \<open>c_\<close> chat, \<open>r_\<close> review, \<open>a_\<close> user account, \<open>w_\<close> withdrawal,
    and \<open>q_\<close>, \<open>tq_\<close>, \<open>wq_\<close>, \<open>rq_\<close> for the bodies of the requests to the four
    controllers).
  \<^item> A handler that ends in \<open>res.status(c).json({success: false, message: m})\<close> returns
    \<open>Failure c m\<close>; one that ends in \<open>res.status(c).json({success: true, data: d})\<close>
    returns \<open>Success c d\<close>. The list \<open>errors\<close> that accompanies the message
    \<open>Validation failed\<close> is left out.
  \<^item> An exception thrown by the persistence layer is a value of \<open>dbError\<close>; every write
    made before the exception stays in the state that the handler returns. The models
    \<open>Booking\<close>, \<open>Withdrawal\<close> and \<open>Review\<close> throw when a document fails the validators
    of its schema; whether \<open>Transaction.create\<close> throws is decided by the environment
    (the validators of its schema, or a fault of the database). Reading a collection
    never throws, and neither does saving a payment, a service or a user.
  \<^item> The schemas are in strict mode, the default of Mongoose: a field that a schema
    does not declare is not stored and cannot be read from a document.
  \<^item> Requests are handled one after the other.
\<close>

datatype 'a response = Success nat 'a | Failure nat string

fun succeeded :: "'a response \<Rightarrow> bool" where
  "succeeded (Success c d) = True"
| "succeeded (Failure c m) = False"

datatype dbError = ValidationError | DuplicateKey | ServerError

text \<open>
  A numeric field of a request body, as \<open>toNumber\<close> sees it: \<open>Undefined\<close> is a missing
  field, \<open>Numeric n\<close> any value whose \<open>Number(value)\<close> is \<open>n\<close>, \<open>NonNumeric\<close> any value for
  which \<open>toNumber\<close> answers \<open>undefined\<close> although the field is present (\<open>null\<close>, the
  empty string, a value whose \<open>Number(value)\<close> is \<open>NaN\<close>).
\<close>

datatype jsInput = Undefined | Numeric rat | NonNumeric

fun toNumber :: "jsInput \<Rightarrow> rat option" where
  "toNumber Undefined = None"
| "toNumber NonNumeric = None"
| "toNumber (Numeric n) = Some n"

definition Math_floor :: "rat \<Rightarrow> rat" where
  "Math_floor x = of_int \<lfloor>x\<rfloor>"

record authUser =
  u_id :: string
  u_type :: string

record 'b request =
  user :: "authUser option"
  params_id :: string
  body :: 'b

definition currentUserId :: "authUser \<Rightarrow> string" where
  "currentUserId u = u_id u"

text \<open>\<open>String.prototype.trim\<close>, on the ASCII white space and line terminators.\<close>

definition isWhitespace :: "char \<Rightarrow> bool" where
  "isWhitespace c = (c \<in> set [CHR 0x09, CHR 0x0A, CHR 0x0B, CHR 0x0C, CHR 0x0D, CHR 0x20])"

definition trim :: "string \<Rightarrow> string" where
  "trim s = rev (dropWhile isWhitespace (rev (dropWhile isWhitespace s)))"

text \<open>\<open>String.prototype.toUpperCase\<close>, on the ASCII letters\<close>

definition upperChar :: "char \<Rightarrow> char" where
  "upperChar c =
     (if (97::nat) \<le> of_char c \<and> of_char c \<le> (122::nat) then char_of (of_char c - (32::nat)) else c)"

definition toUpperCase :: "string \<Rightarrow> string" where
  "toUpperCase s = map upperChar s"

subsection \<open>Documents\<close>

record booking =
  b_id :: string
  b_customerId :: string
  b_providerId :: string
  b_serviceId :: string
  b_serviceName :: string
  b_date :: string
  b_startTime :: string
  b_endTime :: string
  b_totalHours :: rat
  b_totalAmount :: rat
  b_depositAmount :: rat
  b_status :: string
  b_paymentStatus :: string
  b_specialRequests :: string
  b_cancelledBy :: "string option"
  b_refundAmount :: "rat option"

text \<open>
  A transaction as the controllers build it. \<open>TransactionSchema\<close> declares \<open>customerId\<close>,
  \<open>amount\<close>, \<open>currency\<close>, \<open>method\<close>, \<open>status\<close> and \<open>note\<close>. The fields \<open>type\<close>,
  \<open>action\<close>, \<open>providerId\<close> and \<open>balanceAfter\<close>, which the controllers pass as well, are
  not declared: they are optional here, and \<open>None\<close> in every document of the Transaction
  model of the repository (see \<open>TransactionSchema_cast\<close> below).
\<close>

record transaction =
  t_customerId :: string
  t_amount :: rat
  t_currency :: string
  t_method :: string
  t_type :: "string option"
  t_status :: string
  t_note :: string
  t_action :: "string option"
  t_providerId :: "string option"
  t_balanceAfter :: "rat option"

record payment =
  p_id :: string
  p_bookingId :: string
  p_status :: string
  p_refundAmount :: rat
  p_refundReason :: string
  p_refundedAt :: "nat option"

record service =
  s_id :: string
  s_rating :: rat
  s_reviewCount :: nat
  s_bookingCount :: nat

record chat =
  c_id :: string
  c_bookingId :: string

record review =
  r_id :: string
  r_bookingId :: string
  r_serviceId :: string
  r_customerId :: string
  r_rating :: rat
  r_comment :: string

record account =
  a_id :: string
  a_balance :: "rat option"

record withdrawal =
  w_userId :: string
  w_amount :: rat
  w_bankName :: string
  w_accountNumber :: string
  w_accountName :: string
  w_status :: string
  w_requestedAt :: nat
  w_completedAt :: "nat option"

record db =
  bookings :: "booking list"
  transactions :: "transaction list"
  payments :: "payment list"
  services :: "service list"
  chats :: "chat list"
  reviews :: "review list"
  users :: "account list"
  withdrawals :: "withdrawal list"

text \<open>
  What the handlers take from outside the repository: whether the Transaction model
  accepts a document (\<open>None\<close>) or throws (\<open>Some e\<close>), whether Mongoose removes from the
  filter of a query the fields that the schema does not declare (its option
  \<open>strictQuery\<close>, which the sources do not set and whose default depends on the version
  of Mongoose), how MongoDB's \<open>$regex\<close> operator decides that a pattern matches a string,
  the clock read by \<open>new Date()\<close>, and the identifier that \<open>uuidv4()\<close> gives to a new
  review.
\<close>

record env =
  txCreate :: "transaction \<Rightarrow> dbError option"
  strictQuery :: bool
  regexTest :: "string \<Rightarrow> string \<Rightarrow> bool"
  now :: nat
  uuid :: string

subsection \<open>The Thai literals of the source, as UTF-8 bytes\<close>

text \<open>"refund"\<close>
definition label_refund :: string where
  "label_refund = [CHR 0xE0, CHR 0xB8, CHR 0x84, CHR 0xE0, CHR 0xB8, CHR 0xB7, CHR 0xE0, CHR 0xB8, CHR 0x99, CHR 0xE0, CHR 0xB9, CHR 0x80, CHR 0xE0, CHR 0xB8, CHR 0x87, CHR 0xE0, CHR 0xB8, CHR 0xB4, CHR 0xE0, CHR 0xB8, CHR 0x99]"

text \<open>"cancelled by"\<close>
definition label_cancelledBy :: string where
  "label_cancelledBy = [CHR 0xE0, CHR 0xB8, CHR 0xA2, CHR 0xE0, CHR 0xB8, CHR 0x81, CHR 0xE0, CHR 0xB9, CHR 0x80, CHR 0xE0, CHR 0xB8, CHR 0xA5, CHR 0xE0, CHR 0xB8, CHR 0xB4, CHR 0xE0, CHR 0xB8, CHR 0x81, CHR 0xE0, CHR 0xB9, CHR 0x82, CHR 0xE0, CHR 0xB8, CHR 0x94, CHR 0xE0, CHR 0xB8, CHR 0xA2]"

text \<open>"the provider"\<close>
definition label_provider :: string where
  "label_provider = [CHR 0xE0, CHR 0xB8, CHR 0x9C, CHR 0xE0, CHR 0xB8, CHR 0xB9, CHR 0xE0, CHR 0xB9, CHR 0x89, CHR 0xE0, CHR 0xB9, CHR 0x83, CHR 0xE0, CHR 0xB8, CHR 0xAB, CHR 0xE0, CHR 0xB9, CHR 0x89, CHR 0xE0, CHR 0xB8, CHR 0x9A, CHR 0xE0, CHR 0xB8, CHR 0xA3, CHR 0xE0, CHR 0xB8, CHR 0xB4, CHR 0xE0, CHR 0xB8, CHR 0x81, CHR 0xE0, CHR 0xB8, CHR 0xB2, CHR 0xE0, CHR 0xB8, CHR 0xA3]"

text \<open>"the customer"\<close>
definition label_customer :: string where
  "label_customer = [CHR 0xE0, CHR 0xB8, CHR 0xA5, CHR 0xE0, CHR 0xB8, CHR 0xB9, CHR 0xE0, CHR 0xB8, CHR 0x81, CHR 0xE0, CHR 0xB8, CHR 0x84, CHR 0xE0, CHR 0xB9, CHR 0x89, CHR 0xE0, CHR 0xB8, CHR 0xB2]"

text \<open>"cancellation compensation"\<close>
definition label_compensation :: string where
  "label_compensation = [CHR 0xE0, CHR 0xB8, CHR 0x84, CHR 0xE0, CHR 0xB9, CHR 0x88, CHR 0xE0, CHR 0xB8, CHR 0xB2, CHR 0xE0, CHR 0xB8, CHR 0x8A, CHR 0xE0, CHR 0xB8, CHR 0x94, CHR 0xE0, CHR 0xB9, CHR 0x80, CHR 0xE0, CHR 0xB8, CHR 0x8A, CHR 0xE0, CHR 0xB8, CHR 0xA2, CHR 0xE0, CHR 0xB8, CHR 0x81, CHR 0xE0, CHR 0xB8, CHR 0xB2, CHR 0xE0, CHR 0xB8, CHR 0xA3, CHR 0xE0, CHR 0xB8, CHR 0xA2, CHR 0xE0, CHR 0xB8, CHR 0x81, CHR 0xE0, CHR 0xB9, CHR 0x80, CHR 0xE0, CHR 0xB8, CHR 0xA5, CHR 0xE0, CHR 0xB8, CHR 0xB4, CHR 0xE0, CHR 0xB8, CHR 0x81]"

text \<open>"the customer cancelled"\<close>
definition label_customerCancelled :: string where
  "label_customerCancelled = [CHR 0xE0, CHR 0xB8, CHR 0xA5, CHR 0xE0, CHR 0xB8, CHR 0xB9, CHR 0xE0, CHR 0xB8, CHR 0x81, CHR 0xE0, CHR 0xB8, CHR 0x84, CHR 0xE0, CHR 0xB9, CHR 0x89, CHR 0xE0, CHR 0xB8, CHR 0xB2, CHR 0xE0, CHR 0xB8, CHR 0xA2, CHR 0xE0, CHR 0xB8, CHR 0x81, CHR 0xE0, CHR 0xB9, CHR 0x80, CHR 0xE0, CHR 0xB8, CHR 0xA5, CHR 0xE0, CHR 0xB8, CHR 0xB4, CHR 0xE0, CHR 0xB8, CHR 0x81]"

text \<open>"income from providing the service"\<close>
definition label_earning :: string where
  "label_earning = [CHR 0xE0, CHR 0xB8, CHR 0xA3, CHR 0xE0, CHR 0xB8, CHR 0xB2, CHR 0xE0, CHR 0xB8, CHR 0xA2, CHR 0xE0, CHR 0xB9, CHR 0x84, CHR 0xE0, CHR 0xB8, CHR 0x94, CHR 0xE0, CHR 0xB9, CHR 0x89, CHR 0xE0, CHR 0xB8, CHR 0x88, CHR 0xE0, CHR 0xB8, CHR 0xB2, CHR 0xE0, CHR 0xB8, CHR 0x81, CHR 0xE0, CHR 0xB8, CHR 0x81, CHR 0xE0, CHR 0xB8, CHR 0xB2, CHR 0xE0, CHR 0xB8, CHR 0xA3, CHR 0xE0, CHR 0xB9, CHR 0x83, CHR 0xE0, CHR 0xB8, CHR 0xAB, CHR 0xE0, CHR 0xB9, CHR 0x89, CHR 0xE0, CHR 0xB8, CHR 0x9A, CHR 0xE0, CHR 0xB8, CHR 0xA3, CHR 0xE0, CHR 0xB8, CHR 0xB4, CHR 0xE0, CHR 0xB8, CHR 0x81, CHR 0xE0, CHR 0xB8, CHR 0xB2, CHR 0xE0, CHR 0xB8, CHR 0xA3]"

text \<open>"withdraw money to the account"\<close>
definition label_withdraw :: string where
  "label_withdraw = [CHR 0xE0, CHR 0xB8, CHR 0x96, CHR 0xE0, CHR 0xB8, CHR 0xAD, CHR 0xE0, CHR 0xB8, CHR 0x99, CHR 0xE0, CHR 0xB9, CHR 0x80, CHR 0xE0, CHR 0xB8, CHR 0x87, CHR 0xE0, CHR 0xB8, CHR 0xB4, CHR 0xE0, CHR 0xB8, CHR 0x99, CHR 0xE0, CHR 0xB9, CHR 0x84, CHR 0xE0, CHR 0xB8, CHR 0x9B, CHR 0xE0, CHR 0xB8, CHR 0x9A, CHR 0xE0, CHR 0xB8, CHR 0xB1, CHR 0xE0, CHR 0xB8, CHR 0x8D, CHR 0xE0, CHR 0xB8, CHR 0x8A, CHR 0xE0, CHR 0xB8, CHR 0xB5]"


section \<open>The bookings controller\<close>

text \<open>
  The repository holds two versions of this controller. The embedding follows the later
  one, whose \<open>updateBooking\<close> carries the refund, the compensation and the provider's
  earning, and whose \<open>getBooking\<close> goes without \<open>canAccessBooking\<close>.
\<close>

subsection \<open>The Booking schema\<close>

definition STATUS_ENUM :: "string list" where
  "STATUS_ENUM = [''pending'', ''confirmed'', ''completed'', ''cancelled'']"

definition PAYMENT_STATUS_ENUM :: "string list" where
  "PAYMENT_STATUS_ENUM = [''pending'', ''paid'', ''refunded'', ''partially_refunded'']"

definition CANCELLED_BY_ENUM :: "string list" where
  "CANCELLED_BY_ENUM = [''customer'', ''provider'']"

definition isDigit :: "char \<Rightarrow> bool" where
  "isDigit c = (c \<in> set ''0123456789'')"

text \<open>The regular expression \<open>/^\d{4}-\d{2}-\d{2}$/\<close>.\<close>

fun isoDateRegex :: "string \<Rightarrow> bool" where
  "isoDateRegex [y1, y2, y3, y4, d1, m1, m2, d2, e1, e2] =
     (isDigit y1 \<and> isDigit y2 \<and> isDigit y3 \<and> isDigit y4 \<and> d1 = CHR ''-'' \<and>
      isDigit m1 \<and> isDigit m2 \<and> d2 = CHR ''-'' \<and> isDigit e1 \<and> isDigit e2)"
| "isoDateRegex s = False"

text \<open>
  The validators that \<open>booking.save()\<close> runs: \<open>required\<close> (a string must not be empty),
  \<open>min\<close>, \<open>maxlength\<close>, \<open>enum\<close> and the two custom validators. The whole document is
  checked; Mongoose checks the required and the modified paths, which is the same for a
  stored document whose optional paths were valid when they were written.
\<close>

definition validateBooking :: "booking \<Rightarrow> bool" where
  "validateBooking b =
     (b_id b \<noteq> [] \<and> b_customerId b \<noteq> [] \<and> b_providerId b \<noteq> [] \<and> b_serviceId b \<noteq> [] \<and>
      b_serviceName b \<noteq> [] \<and> length (b_serviceName b) \<le> 160 \<and>
      b_date b \<noteq> [] \<and> isoDateRegex (b_date b) \<and>
      b_startTime b \<noteq> [] \<and> b_endTime b \<noteq> [] \<and>
      1 / 2 \<le> b_totalHours b \<and>
      0 \<le> b_totalAmount b \<and>
      0 \<le> b_depositAmount b \<and> b_depositAmount b \<le> b_totalAmount b \<and>
      b_status b \<in> set STATUS_ENUM \<and>
      b_paymentStatus b \<in> set PAYMENT_STATUS_ENUM \<and>
      length (b_specialRequests b) \<le> 2000 \<and>
      (case b_cancelledBy b of None \<Rightarrow> True | Some c \<Rightarrow> c \<in> set CANCELLED_BY_ENUM) \<and>
      (case b_refundAmount b of None \<Rightarrow> True | Some r \<Rightarrow> 0 \<le> r))"

subsection \<open>Model operations\<close>

definition Booking_findById :: "db \<Rightarrow> string \<Rightarrow> booking option" where
  "Booking_findById d i = find (\<lambda>b. b_id b = i) (bookings d)"

definition Booking_save :: "db \<Rightarrow> booking \<Rightarrow> dbError + db" where
  "Booking_save d b =
     (if validateBooking b
      then Inr (d\<lparr>bookings := map (\<lambda>x. if b_id x = b_id b then b else x) (bookings d)\<rparr>)
      else Inl ValidationError)"

definition Booking_countDocuments :: "db \<Rightarrow> string \<Rightarrow> string \<Rightarrow> nat" where
  "Booking_countDocuments d sid st =
     length (filter (\<lambda>b. b_serviceId b = sid \<and> b_status b = st) (bookings d))"

definition Chat_findOne :: "db \<Rightarrow> string \<Rightarrow> chat option" where
  "Chat_findOne d bid = find (\<lambda>c. c_bookingId c = bid) (chats d)"

text \<open>
  The paths of \<open>TransactionSchema\<close>: a document of the model has no \<open>type\<close>, \<open>action\<close>,
  \<open>providerId\<close> or \<open>balanceAfter\<close>, and reading one of them gives \<open>undefined\<close>.
\<close>

definition TransactionSchema_paths :: "transaction \<Rightarrow> transaction" where
  "TransactionSchema_paths t =
     t\<lparr>t_type := None, t_action := None, t_providerId := None, t_balanceAfter := None\<rparr>"

text \<open>
  The document that the model makes of the object given to \<open>Transaction.create\<close>: the
  undeclared fields are dropped, \<open>currency\<close> is trimmed and put in upper case, \<open>method\<close>
  is trimmed.
\<close>

definition TransactionSchema_cast :: "transaction \<Rightarrow> transaction" where
  "TransactionSchema_cast t =
     TransactionSchema_paths
       (t\<lparr>t_currency := toUpperCase (trim (t_currency t)), t_method := trim (t_method t)\<rparr>)"

text \<open>\<open>Transaction.create\<close> of the model of the repository.\<close>

definition Transaction_create :: "env \<Rightarrow> db \<Rightarrow> transaction \<Rightarrow> dbError + db" where
  "Transaction_create e d t =
     (case txCreate e t of
        Some err \<Rightarrow> Inl err
      | None \<Rightarrow> Inr (d\<lparr>transactions := transactions d @ [TransactionSchema_cast t]\<rparr>))"

text \<open>
  \<open>Transaction.findOne({customerId, type, note: {$regex: pattern}})\<close>. The schema does
  not declare \<open>type\<close>: with \<open>strictQuery\<close> the field is removed from the filter, without
  it the filter reaches MongoDB as it is and selects the stored documents that carry the
  field with that value.
\<close>

definition Transaction_findOne :: "env \<Rightarrow> db \<Rightarrow> string \<Rightarrow> string \<Rightarrow> string \<Rightarrow> transaction option" where
  "Transaction_findOne e d cid ty pattern =
     find (\<lambda>t. t_customerId t = cid \<and> (strictQuery e \<or> t_type t = Some ty) \<and>
               regexTest e pattern (t_note t))
       (transactions d)"

text \<open>\<open>Transaction.find({customerId})\<close>: the documents of the customer, as the model reads them.\<close>

definition Transaction_find :: "db \<Rightarrow> string \<Rightarrow> transaction list" where
  "Transaction_find d cid =
     map TransactionSchema_paths (filter (\<lambda>t. t_customerId t = cid) (transactions d))"

definition Payment_findOne :: "db \<Rightarrow> string \<Rightarrow> payment option" where
  "Payment_findOne d bid = find (\<lambda>p. p_bookingId p = bid) (payments d)"

definition Payment_save :: "db \<Rightarrow> payment \<Rightarrow> db" where
  "Payment_save d p = d\<lparr>payments := map (\<lambda>x. if p_id x = p_id p then p else x) (payments d)\<rparr>"

definition Service_findById :: "db \<Rightarrow> string \<Rightarrow> service option" where
  "Service_findById d i = find (\<lambda>s. s_id s = i) (services d)"

definition Service_save :: "db \<Rightarrow> service \<Rightarrow> db" where
  "Service_save d s = d\<lparr>services := map (\<lambda>x. if s_id x = s_id s then s else x) (services d)\<rparr>"

subsection \<open>Helpers of the controller\<close>

type_synonym bookingData = "booking \<times> string option"

definition formatBookingResponse :: "booking \<Rightarrow> chat option \<Rightarrow> bookingData" where
  "formatBookingResponse b c = (b, map_option c_id c)"

definition canAccessBooking :: "booking \<Rightarrow> authUser \<Rightarrow> bool" where
  "canAccessBooking b u =
     (if u_type u = ''admin'' then True
      else b_customerId b = currentUserId u \<or> b_providerId b = currentUserId u)"

definition errorResponse :: "dbError \<Rightarrow> 'a response" where
  "errorResponse e =
     (case e of ValidationError \<Rightarrow> Failure 400 ''Validation failed''
              | DuplicateKey \<Rightarrow> Failure 500 ''Server error''
              | ServerError \<Rightarrow> Failure 500 ''Server error'')"

subsection \<open>getBooking\<close>

definition getBooking :: "db \<Rightarrow> unit request \<Rightarrow> bookingData response" where
  "getBooking d req =
     (case user req of
        None \<Rightarrow> Failure 401 ''Not authenticated''
      | Some u \<Rightarrow>
          (case Booking_findById d (params_id req) of
             None \<Rightarrow> Failure 404 ''Booking not found''
           | Some b \<Rightarrow> Success 200 (formatBookingResponse b (Chat_findOne d (b_id b)))))"


subsection \<open>updateBooking\<close>

text \<open>
  The body of the request. A string field is \<open>None\<close> when the body does not carry it.
\<close>

record bookingBody =
  q_totalHours :: jsInput
  q_totalAmount :: jsInput
  q_depositAmount :: jsInput
  q_refundAmount :: jsInput
  q_date :: "string option"
  q_startTime :: "string option"
  q_endTime :: "string option"
  q_specialRequests :: "string option"
  q_status :: "string option"
  q_paymentStatus :: "string option"
  q_cancelledBy :: "string option"

text \<open>
  One round of the loop over \<open>numericFields\<close>: a field that is present and not numeric
  throws \<open><field> must be a valid number\<close>.
\<close>

definition setNumeric ::
  "string \<Rightarrow> jsInput \<Rightarrow> (rat \<Rightarrow> booking \<Rightarrow> booking) \<Rightarrow> booking \<Rightarrow> string + booking" where
  "setNumeric field v assign b =
     (if v = Undefined then Inr b
      else (case toNumber v of
              None \<Rightarrow> Inl (field @ '' must be a valid number'')
            | Some num \<Rightarrow> Inr (assign num b)))"

definition applyNumericFields :: "bookingBody \<Rightarrow> booking \<Rightarrow> string + booking" where
  "applyNumericFields q b =
     (case setNumeric ''totalHours'' (q_totalHours q) (\<lambda>n x. x\<lparr>b_totalHours := n\<rparr>) b of
        Inl m \<Rightarrow> Inl m
      | Inr b1 \<Rightarrow>
     (case setNumeric ''totalAmount'' (q_totalAmount q) (\<lambda>n x. x\<lparr>b_totalAmount := n\<rparr>) b1 of
        Inl m \<Rightarrow> Inl m
      | Inr b2 \<Rightarrow>
     (case setNumeric ''depositAmount'' (q_depositAmount q) (\<lambda>n x. x\<lparr>b_depositAmount := n\<rparr>) b2 of
        Inl m \<Rightarrow> Inl m
      | Inr b3 \<Rightarrow>
        setNumeric ''refundAmount'' (q_refundAmount q) (\<lambda>n x. x\<lparr>b_refundAmount := Some n\<rparr>) b3)))"

text \<open>The loop over \<open>stringFields\<close>; the schema trims \<open>startTime\<close> and \<open>endTime\<close>.\<close>

definition applyStringFields :: "bookingBody \<Rightarrow> booking \<Rightarrow> booking" where
  "applyStringFields q b =
     (let b1 = (case q_date q of None \<Rightarrow> b | Some v \<Rightarrow> b\<lparr>b_date := v\<rparr>);
          b2 = (case q_startTime q of None \<Rightarrow> b1 | Some v \<Rightarrow> b1\<lparr>b_startTime := trim v\<rparr>);
          b3 = (case q_endTime q of None \<Rightarrow> b2 | Some v \<Rightarrow> b2\<lparr>b_endTime := trim v\<rparr>)
      in (case q_specialRequests q of None \<Rightarrow> b3 | Some v \<Rightarrow> b3\<lparr>b_specialRequests := v\<rparr>))"

definition inferredCancelledBy :: "bookingBody \<Rightarrow> authUser \<Rightarrow> string" where
  "inferredCancelledBy q u =
     (case q_cancelledBy q of
        Some c \<Rightarrow>
          if c \<noteq> [] \<and> c \<in> set CANCELLED_BY_ENUM then c
          else if u_type u = ''provider'' then ''provider'' else ''customer''
      | None \<Rightarrow> if u_type u = ''provider'' then ''provider'' else ''customer'')"

definition applyStatus :: "bookingBody \<Rightarrow> authUser \<Rightarrow> booking \<Rightarrow> string + booking" where
  "applyStatus q u b =
     (case q_status q of
        None \<Rightarrow> Inr b
      | Some st \<Rightarrow>
          if st \<notin> set STATUS_ENUM then Inl ''Invalid status value''
          else if st = ''cancelled''
          then Inr (b\<lparr>b_status := st, b_cancelledBy := Some (inferredCancelledBy q u)\<rparr>)
          else Inr (b\<lparr>b_status := st, b_cancelledBy := None\<rparr>))"

definition applyPaymentStatus :: "bookingBody \<Rightarrow> booking \<Rightarrow> string + booking" where
  "applyPaymentStatus q b =
     (case q_paymentStatus q of
        None \<Rightarrow> Inr b
      | Some ps \<Rightarrow>
          if ps \<notin> set PAYMENT_STATUS_ENUM then Inl ''Invalid paymentStatus value''
          else Inr (b\<lparr>b_paymentStatus := ps\<rparr>))"

text \<open>
  The in-memory booking after the assignments from the body, or the message of the
  status-400 response that ends the handler before any side effect.
\<close>

definition assignFields :: "bookingBody \<Rightarrow> authUser \<Rightarrow> booking \<Rightarrow> string + booking" where
  "assignFields q u b =
     (case applyNumericFields q b of
        Inl m \<Rightarrow> Inl m
      | Inr b1 \<Rightarrow>
          (case applyStatus q u (applyStringFields q b1) of
             Inl m \<Rightarrow> Inl m
           | Inr b2 \<Rightarrow> applyPaymentStatus q b2))"

text \<open>\<open>booking.refundAmount && booking.refundAmount > 0\<close>\<close>

definition alreadyProcessed :: "booking \<Rightarrow> bool" where
  "alreadyProcessed b = (case b_refundAmount b of None \<Rightarrow> False | Some r \<Rightarrow> r \<noteq> 0 \<and> 0 < r)"

definition refundDue :: "booking \<Rightarrow> bool" where
  "refundDue b =
     (b_status b = ''cancelled'' \<and>
      (case b_cancelledBy b of None \<Rightarrow> False | Some c \<Rightarrow> c \<noteq> []) \<and>
      (b_paymentStatus b = ''refunded'' \<or> b_paymentStatus b = ''partially_refunded''))"

text \<open>
  The two local variables \<open>refundAmount\<close> and \<open>providerCompensation\<close> and the booking
  after the assignment to \<open>booking.refundAmount\<close>.
\<close>

definition refundSplit :: "booking \<Rightarrow> rat \<times> rat \<times> booking" where
  "refundSplit b =
     (if b_cancelledBy b = Some ''provider''
      then (b_totalAmount b, 0, b\<lparr>b_refundAmount := Some (b_totalAmount b)\<rparr>)
      else if b_cancelledBy b = Some ''customer''
      then (let refundAmount = Math_floor (b_totalAmount b * (1 / 2))
            in (refundAmount, b_totalAmount b - refundAmount,
                b\<lparr>b_refundAmount := Some refundAmount\<rparr>))
      else (0, 0, b))"

definition cancellerLabel :: "booking \<Rightarrow> string" where
  "cancellerLabel b =
     (if b_cancelledBy b = Some ''provider'' then label_provider else label_customer)"

definition refundTransaction :: "booking \<Rightarrow> rat \<Rightarrow> transaction" where
  "refundTransaction b refundAmount =
     \<lparr>t_customerId = b_customerId b, t_amount = refundAmount, t_currency = ''THB'',
      t_method = ''refund'', t_type = Some ''refund'', t_status = ''completed'',
      t_note = label_refund @ '' - '' @ b_serviceName b @ '' ('' @ label_cancelledBy @
               cancellerLabel b @ '')'',
      t_action = None, t_providerId = None, t_balanceAfter = None\<rparr>"

definition compensationTransaction :: "booking \<Rightarrow> rat \<Rightarrow> transaction" where
  "compensationTransaction b providerCompensation =
     \<lparr>t_customerId = b_providerId b, t_amount = providerCompensation, t_currency = ''THB'',
      t_method = ''compensation'', t_type = Some ''topup'', t_status = ''completed'',
      t_note = label_compensation @ '' - '' @ b_serviceName b @ '' ('' @
               label_customerCancelled @ '')'',
      t_action = None, t_providerId = None, t_balanceAfter = None\<rparr>"

definition earningNote :: "booking \<Rightarrow> string" where
  "earningNote b = label_earning @ '' - '' @ b_serviceName b"

definition earningTransaction :: "booking \<Rightarrow> transaction" where
  "earningTransaction b =
     (let platformCommission = Math_floor (b_totalAmount b * (1 / 10));
          providerEarning = b_totalAmount b - platformCommission
      in \<lparr>t_customerId = b_providerId b, t_amount = providerEarning, t_currency = ''THB'',
          t_method = ''earning'', t_type = Some ''topup'', t_status = ''completed'',
          t_note = earningNote b,
          t_action = None, t_providerId = None, t_balanceAfter = None\<rparr>)"

text \<open>The update of the payment record that follows the refund transaction.\<close>

definition markPaymentRefunded :: "env \<Rightarrow> db \<Rightarrow> booking \<Rightarrow> rat \<Rightarrow> db" where
  "markPaymentRefunded e d b refundAmount =
     (case Payment_findOne d (b_id b) of
        None \<Rightarrow> d
      | Some p \<Rightarrow>
          if p_refundedAt p = None
          then Payment_save d
                 (p\<lparr>p_status := b_paymentStatus b, p_refundAmount := refundAmount,
                    p_refundReason := label_cancelledBy @ cancellerLabel b,
                    p_refundedAt := Some (now e)\<rparr>)
          else d)"

text \<open>"Create refund transaction if refund amount > 0", with the update of the payment.\<close>

definition createRefund :: "env \<Rightarrow> db \<Rightarrow> booking \<Rightarrow> rat \<Rightarrow> (dbError \<times> db) + db" where
  "createRefund e d b refundAmount =
     (if 0 < refundAmount
      then (case Transaction_create e d (refundTransaction b refundAmount) of
              Inl err \<Rightarrow> Inl (err, d)
            | Inr d1 \<Rightarrow> Inr (markPaymentRefunded e d1 b refundAmount))
      else Inr d)"

text \<open>"Give provider compensation if customer cancelled"\<close>

definition createCompensation :: "env \<Rightarrow> db \<Rightarrow> booking \<Rightarrow> rat \<Rightarrow> (dbError \<times> db) + db" where
  "createCompensation e d b providerCompensation =
     (if 0 < providerCompensation
      then (case Transaction_create e d (compensationTransaction b providerCompensation) of
              Inl err \<Rightarrow> Inl (err, d)
            | Inr d1 \<Rightarrow> Inr d1)
      else Inr d)"

text \<open>
  The block "Process refund if booking is cancelled and was paid". \<open>Inl (err, d')\<close>: a
  \<open>Transaction.create\<close> threw \<open>err\<close> and \<open>d'\<close> holds what was written before.
\<close>

definition processRefund :: "env \<Rightarrow> db \<Rightarrow> booking \<Rightarrow> (dbError \<times> db) + (db \<times> booking)" where
  "processRefund e d b =
     (if refundDue b \<and> \<not> alreadyProcessed b
      then (case refundSplit b of (refundAmount, providerCompensation, b1) \<Rightarrow>
        (case createRefund e d b1 refundAmount of
           Inl x \<Rightarrow> Inl x
         | Inr d1 \<Rightarrow>
             (case createCompensation e d1 b1 providerCompensation of
                Inl x \<Rightarrow> Inl x
              | Inr d2 \<Rightarrow> Inr (d2, b1))))
      else Inr (d, b))"

text \<open>The synchronisation of \<open>service.bookingCount\<close> with the stored bookings.\<close>

definition syncBookingCount :: "db \<Rightarrow> booking \<Rightarrow> db" where
  "syncBookingCount d b =
     (case Service_findById d (b_serviceId b) of
        None \<Rightarrow> d
      | Some s \<Rightarrow>
          (let completedBookingsCount = Booking_countDocuments d (b_serviceId b) ''completed''
           in if completedBookingsCount \<noteq> s_bookingCount s
              then Service_save d (s\<lparr>s_bookingCount := completedBookingsCount\<rparr>)
              else d))"

text \<open>The block "Process provider earning if booking is completed and was paid".\<close>

definition processEarning :: "env \<Rightarrow> db \<Rightarrow> booking \<Rightarrow> (dbError \<times> db) + db" where
  "processEarning e d b =
     (if b_status b = ''completed'' \<and> b_paymentStatus b = ''paid''
      then (case Transaction_findOne e d (b_providerId b) ''topup'' (earningNote b) of
              Some existingEarning \<Rightarrow> Inr (syncBookingCount d b)
            | None \<Rightarrow>
                (case Transaction_create e d (earningTransaction b) of
                   Inl err \<Rightarrow> Inl (err, d)
                 | Inr d1 \<Rightarrow> Inr (syncBookingCount d1 b)))
      else Inr d)"

text \<open>
  The two blocks in sequence: every ledger write of the handler.
\<close>

definition ledgerSideEffects :: "env \<Rightarrow> db \<Rightarrow> booking \<Rightarrow> (dbError \<times> db) + (db \<times> booking)" where
  "ledgerSideEffects e d b =
     (case processRefund e d b of
        Inl x \<Rightarrow> Inl x
      | Inr (d1, b1) \<Rightarrow>
          (case processEarning e d1 b1 of
             Inl x \<Rightarrow> Inl x
           | Inr d2 \<Rightarrow> Inr (d2, b1)))"

definition updateBooking :: "env \<Rightarrow> db \<Rightarrow> bookingBody request \<Rightarrow> bookingData response \<times> db" where
  "updateBooking e d req =
     (case user req of
        None \<Rightarrow> (Failure 401 ''Not authenticated'', d)
      | Some u \<Rightarrow>
     (case Booking_findById d (params_id req) of
        None \<Rightarrow> (Failure 404 ''Booking not found'', d)
      | Some booking \<Rightarrow>
          if \<not> canAccessBooking booking u then (Failure 403 ''Forbidden'', d)
          else
     (case assignFields (body req) u booking of
        Inl m \<Rightarrow> (Failure 400 m, d)
      | Inr b \<Rightarrow>
     (case ledgerSideEffects e d b of
        Inl (err, d1) \<Rightarrow> (errorResponse err, d1)
      | Inr (d2, b2) \<Rightarrow>
     (case Booking_save d2 b2 of
        Inl err \<Rightarrow> (errorResponse err, d2)
      | Inr d3 \<Rightarrow>
          (Success 200 (formatBookingResponse b2 (Chat_findOne d3 (b_id b2))), d3))))))"

subsection \<open>A concrete environment\<close>

text \<open>
  The validators of \<open>TransactionSchema\<close>, which see the document after the cast:
  \<open>customerId\<close> is required, \<open>amount\<close> is at least 0.01, \<open>method\<close> has at most 120
  characters, \<open>status\<close> is one of the enumeration, \<open>note\<close> has at most 500 characters.
\<close>

definition TransactionSchema_validate :: "transaction \<Rightarrow> dbError option" where
  "TransactionSchema_validate t =
     (if t_customerId t \<noteq> [] \<and> 1 / 100 \<le> t_amount t \<and>
         length (t_method (TransactionSchema_cast t)) \<le> 120 \<and>
         t_status t \<in> set [''pending'', ''completed'', ''failed''] \<and> length (t_note t) \<le> 500
      then None else Some ValidationError)"

text \<open>
  A pattern without metacharacters matches a string exactly when it occurs in it: the
  search below stands for \<open>$regex\<close> on service names made of letters, digits and spaces.
\<close>

fun literalSearch :: "string \<Rightarrow> string \<Rightarrow> bool" where
  "literalSearch p [] = (p = [])"
| "literalSearch p (c # s) = (prefix p (c # s) \<or> literalSearch p s)"

text \<open>
  The Transaction model with the validators of its schema, on a Mongoose that leaves the
  filter of a query as it is.
\<close>

definition mongo :: env where
  "mongo = \<lparr>txCreate = TransactionSchema_validate, strictQuery = False,
            regexTest = literalSearch, now = 0, uuid = ''review-new''\<rparr>"

section \<open>The transactions controller\<close>

text \<open>
  The later of the two versions of the controller, which keeps a balance with every user.
  The controller is built on the two models that \<open>buildTransactionController\<close> is given,
  \<open>{TransactionModel, UserModel}\<close>. The embedding takes models that keep a document as
  it is passed to them, as the models of \<open>tests/transactions.test.js\<close> do: a user
  document carries a \<open>balance\<close> (the collection \<open>users\<close> of the state), and
  \<open>TransactionModel.create\<close> resolves with its argument and keeps it (the collection
  \<open>transactions\<close>) or throws (\<open>txCreate\<close> of the environment). The default arguments
  are the models of the repository, whose schemas declare neither \<open>balance\<close> nor
  \<open>action\<close>, \<open>providerId\<close> and \<open>balanceAfter\<close>: with them no user document carries a
  balance. The assignment to \<open>req.user.balance\<close> changes the request object only and is
  left out.
\<close>

record transactionBody =
  tq_amount :: jsInput
  tq_currency :: "string option"
  tq_method :: "string option"
  tq_status :: "string option"
  tq_note :: "string option"
  tq_customerId :: "string option"
  tq_providerId :: "string option"

text \<open>\<open>value || fallback\<close> on an optional string\<close>

definition orElse :: "string option \<Rightarrow> string \<Rightarrow> string" where
  "orElse v fallback = (case v of None \<Rightarrow> fallback | Some s \<Rightarrow> if s = [] then fallback else s)"

text \<open>
  \<open>Number(req.body?.amount)\<close> followed by the test
  \<open>!amount || Number.isNaN(amount) || amount <= 0\<close>: the amount, or \<open>None\<close> when the
  request is refused.
\<close>

definition validAmount :: "jsInput \<Rightarrow> rat option" where
  "validAmount v = (case toNumber v of None \<Rightarrow> None | Some n \<Rightarrow> if n = 0 \<or> n \<le> 0 then None else Some n)"

definition findUserById :: "db \<Rightarrow> string \<Rightarrow> account option" where
  "findUserById d userId = (if userId = [] then None else find (\<lambda>a. a_id a = userId) (users d))"

definition User_save :: "db \<Rightarrow> account \<Rightarrow> db" where
  "User_save d a = d\<lparr>users := map (\<lambda>x. if a_id x = a_id a then a else x) (users d)\<rparr>"

text \<open>\<open>user.balance || 0\<close>\<close>

definition balanceOrZero :: "account \<Rightarrow> rat" where
  "balanceOrZero a = (case a_balance a of None \<Rightarrow> 0 | Some x \<Rightarrow> x)"

definition TransactionModel_create :: "env \<Rightarrow> db \<Rightarrow> transaction \<Rightarrow> dbError + db" where
  "TransactionModel_create e d t =
     (case txCreate e t of
        Some err \<Rightarrow> Inl err
      | None \<Rightarrow> Inr (d\<lparr>transactions := transactions d @ [t]\<rparr>))"

definition transactionErrorResponse :: "dbError \<Rightarrow> string \<Rightarrow> 'a response" where
  "transactionErrorResponse err fallback =
     (if err = ValidationError then Failure 400 ''Validation failed'' else Failure 500 fallback)"

text \<open>
  The account that the transaction is written for: an administrator may name it in the
  body, everybody else acts on the own account.
\<close>

definition payloadCustomerId :: "authUser \<Rightarrow> transactionBody \<Rightarrow> string" where
  "payloadCustomerId u q =
     (if u_type u = ''admin'' \<and> orElse (tq_customerId q) [] \<noteq> []
      then orElse (tq_customerId q) [] else currentUserId u)"

text \<open>The \<open>payload\<close> of \<open>performTransaction\<close>, with \<open>balanceAfter\<close>.\<close>

definition performPayload ::
  "transactionBody \<Rightarrow> string \<Rightarrow> rat \<Rightarrow> string \<Rightarrow> rat \<Rightarrow> transaction" where
  "performPayload q customerId amount action balanceAfter =
     \<lparr>t_customerId = customerId, t_amount = amount,
      t_currency = toUpperCase (orElse (tq_currency q) ''THB''),
      t_method = orElse (tq_method q) ''topup'',
      t_type = None,
      t_status = orElse (tq_status q) ''completed'',
      t_note = (case tq_note q of None \<Rightarrow> [] | Some n \<Rightarrow> n),
      t_action = Some action, t_providerId = None,
      t_balanceAfter = Some balanceAfter\<rparr>"

definition performTransaction ::
  "env \<Rightarrow> db \<Rightarrow> transactionBody request \<Rightarrow> string \<Rightarrow> (transaction \<times> rat) response \<times> db" where
  "performTransaction e d req action =
     (case user req of
        None \<Rightarrow> (Failure 401 ''Not authenticated'', d)
      | Some u \<Rightarrow>
     (case validAmount (tq_amount (body req)) of
        None \<Rightarrow> (Failure 400 ''amount must be greater than 0'', d)
      | Some amount \<Rightarrow>
     (case findUserById d (payloadCustomerId u (body req)) of
        None \<Rightarrow> (Failure 404 ''User not found'', d)
      | Some targetUser \<Rightarrow>
     (let delta = (if action = ''debit'' then - amount else amount);
          nextBalance = balanceOrZero targetUser + delta
      in if nextBalance < 0
         then (Failure 400 ''Insufficient balance to perform this transaction'', d)
         else
     (let d1 = User_save d (targetUser\<lparr>a_balance := Some nextBalance\<rparr>);
          payload = performPayload (body req) (payloadCustomerId u (body req)) amount action
                      nextBalance
      in (case TransactionModel_create e d1 payload of
            Inl err \<Rightarrow> (transactionErrorResponse err ''Unable to create transaction'', d1)
          | Inr d2 \<Rightarrow> (Success 201 (payload, nextBalance), d2)))))))"

definition createTransaction ::
  "env \<Rightarrow> db \<Rightarrow> transactionBody request \<Rightarrow> (transaction \<times> rat) response \<times> db" where
  "createTransaction e d req = performTransaction e d req ''credit''"



section \<open>The withdrawals controller\<close>

text \<open>
  The body of a withdrawal request. \<open>wq_amount\<close> is \<open>None\<close> for a missing or falsy
  amount and \<open>Some n\<close> for a value that JavaScript compares as the number \<open>n\<close>.
\<close>

record withdrawalBody =
  wq_userId :: "string option"
  wq_amount :: "rat option"
  wq_bankName :: "string option"
  wq_accountNumber :: "string option"
  wq_accountName :: "string option"

text \<open>
  The reducer over the user's transactions. \<open>t.type\<close> is read from a document of the
  Transaction model.
\<close>

definition balanceStep :: "rat \<Rightarrow> transaction \<Rightarrow> rat" where
  "balanceStep subtotal t =
     (if t_type t = Some ''topup'' \<or> t_type t = Some ''refund'' then subtotal + t_amount t
      else if t_type t = Some ''payment'' \<or> t_type t = Some ''withdrawal'' then subtotal - t_amount t
      else subtotal)"

definition derivedBalance :: "db \<Rightarrow> string \<Rightarrow> rat" where
  "derivedBalance d userId = foldl balanceStep 0 (Transaction_find d userId)"

text \<open>
  The validators of \<open>WithdrawalSchema\<close> on the document that the handler builds: the
  strings are required, trimmed and bounded in length, the amount is at least 100.
\<close>

definition validateWithdrawal :: "withdrawal \<Rightarrow> bool" where
  "validateWithdrawal w =
     (w_userId w \<noteq> [] \<and> 100 \<le> w_amount w \<and>
      w_bankName w \<noteq> [] \<and> length (w_bankName w) \<le> 100 \<and>
      w_accountNumber w \<noteq> [] \<and> length (w_accountNumber w) \<le> 50 \<and>
      w_accountName w \<noteq> [] \<and> length (w_accountName w) \<le> 200 \<and>
      w_status w \<in> set [''pending'', ''completed'', ''failed''])"

definition Withdrawal_create :: "db \<Rightarrow> withdrawal \<Rightarrow> dbError + db" where
  "Withdrawal_create d w =
     (if validateWithdrawal w then Inr (d\<lparr>withdrawals := withdrawals d @ [w]\<rparr>)
      else Inl ValidationError)"

text \<open>
  \<open>targetUserId\<close>: an administrator may name the user, everybody else withdraws from the
  own account.
\<close>

definition targetUserId :: "authUser \<Rightarrow> withdrawalBody \<Rightarrow> string" where
  "targetUserId u q =
     (if u_type u = ''admin'' \<and> orElse (wq_userId q) [] \<noteq> []
      then orElse (wq_userId q) [] else u_id u)"

text \<open>\<open>withdrawalData\<close>, as the schema stores it (the three strings trimmed).\<close>

definition withdrawalData :: "env \<Rightarrow> string \<Rightarrow> rat \<Rightarrow> withdrawalBody \<Rightarrow> withdrawal" where
  "withdrawalData e userId amount q =
     \<lparr>w_userId = userId, w_amount = amount,
      w_bankName = trim (case wq_bankName q of None \<Rightarrow> [] | Some s \<Rightarrow> s),
      w_accountNumber = trim (case wq_accountNumber q of None \<Rightarrow> [] | Some s \<Rightarrow> s),
      w_accountName = trim (case wq_accountName q of None \<Rightarrow> [] | Some s \<Rightarrow> s),
      w_status = ''completed'', w_requestedAt = now e, w_completedAt = Some (now e)\<rparr>"

definition withdrawalTransaction :: "string \<Rightarrow> rat \<Rightarrow> withdrawalBody \<Rightarrow> transaction" where
  "withdrawalTransaction userId amount q =
     \<lparr>t_customerId = userId, t_amount = amount, t_currency = ''THB'',
      t_method = ''bank_transfer'', t_type = Some ''withdrawal'', t_status = ''completed'',
      t_note = label_withdraw @ '' '' @ (case wq_bankName q of None \<Rightarrow> ''undefined'' | Some s \<Rightarrow> s)
               @ '' ('' @ (case wq_accountNumber q of None \<Rightarrow> ''undefined'' | Some s \<Rightarrow> s) @ '')'',
      t_action = None, t_providerId = None, t_balanceAfter = None\<rparr>"

text \<open>
  \<open>createWithdrawal\<close>. Every exception ends in status 400 with the message of the
  exception, which the model abbreviates.
\<close>

definition createWithdrawal ::
  "env \<Rightarrow> db \<Rightarrow> withdrawalBody request \<Rightarrow> withdrawal response \<times> db" where
  "createWithdrawal e d req =
     (case user req of
        None \<Rightarrow> (Failure 400 ''Cannot read properties of undefined'', d)
      | Some u \<Rightarrow>
     (case wq_amount (body req) of
        None \<Rightarrow> (Failure 400 ''Minimum withdrawal amount is 100'', d)
      | Some amount \<Rightarrow>
          if amount = 0 \<or> amount < 100 then (Failure 400 ''Minimum withdrawal amount is 100'', d)
          else if derivedBalance d (targetUserId u (body req)) < amount
          then (Failure 400 ''Insufficient balance for withdrawal'', d)
          else
     (case Withdrawal_create d (withdrawalData e (targetUserId u (body req)) amount (body req)) of
        Inl err \<Rightarrow> (Failure 400 ''Withdrawal validation failed'', d)
      | Inr d1 \<Rightarrow>
     (case Transaction_create e d1
             (withdrawalTransaction (targetUserId u (body req)) amount (body req)) of
        Inl err \<Rightarrow> (Failure 400 ''Transaction validation failed'', d1)
      | Inr d2 \<Rightarrow>
          (Success 201 (withdrawalData e (targetUserId u (body req)) amount (body req)), d2)))))"

section \<open>The reviews controller\<close>

definition Review_findById :: "db \<Rightarrow> string \<Rightarrow> review option" where
  "Review_findById d i = find (\<lambda>r. r_id r = i) (reviews d)"

text \<open>The validators of \<open>ReviewSchema\<close>.\<close>

definition validateReview :: "review \<Rightarrow> bool" where
  "validateReview r =
     (r_id r \<noteq> [] \<and> r_bookingId r \<noteq> [] \<and> r_serviceId r \<noteq> [] \<and> r_customerId r \<noteq> [] \<and>
      0 \<le> r_rating r \<and> r_rating r \<le> 5 \<and> length (r_comment r) \<le> 2000)"

text \<open>\<open>Review.create\<close>: validation, then the unique index on (serviceId, customerId).\<close>

definition Review_create :: "db \<Rightarrow> review \<Rightarrow> dbError + db" where
  "Review_create d r =
     (if \<not> validateReview r then Inl ValidationError
      else if \<exists>x \<in> set (reviews d). r_serviceId x = r_serviceId r \<and> r_customerId x = r_customerId r
      then Inl DuplicateKey
      else Inr (d\<lparr>reviews := reviews d @ [r]\<rparr>))"

definition Review_save :: "db \<Rightarrow> review \<Rightarrow> dbError + db" where
  "Review_save d r =
     (if validateReview r
      then Inr (d\<lparr>reviews := map (\<lambda>x. if r_id x = r_id r then r else x) (reviews d)\<rparr>)
      else Inl ValidationError)"

definition Review_deleteOne :: "db \<Rightarrow> review \<Rightarrow> db" where
  "Review_deleteOne d r = d\<lparr>reviews := filter (\<lambda>x. r_id x \<noteq> r_id r) (reviews d)\<rparr>"

text \<open>
  \<open>Number(x.toFixed(2))\<close> in exact arithmetic: the multiple of 0.01 nearest to \<open>x\<close>, the
  larger one of two that are equally near; a negative \<open>x\<close> is rounded by its magnitude.
\<close>

definition toFixed2 :: "rat \<Rightarrow> rat" where
  "toFixed2 x =
     (if x < 0 then - (of_int \<lfloor>- x * 100 + 1 / 2\<rfloor> / 100)
      else of_int \<lfloor>x * 100 + 1 / 2\<rfloor> / 100)"

text \<open>The ratings that the \<open>$match\<close> stage of the aggregation selects.\<close>

definition serviceRatings :: "db \<Rightarrow> string \<Rightarrow> rat list" where
  "serviceRatings d serviceId = map r_rating (filter (\<lambda>r. r_serviceId r = serviceId) (reviews d))"

definition Service_findByIdAndUpdate :: "db \<Rightarrow> string \<Rightarrow> rat \<Rightarrow> nat \<Rightarrow> db" where
  "Service_findByIdAndUpdate d i avg cnt =
     d\<lparr>services := map (\<lambda>s. if s_id s = i then s\<lparr>s_rating := avg, s_reviewCount := cnt\<rparr> else s)
                       (services d)\<rparr>"

definition updateServiceReviewStats :: "db \<Rightarrow> string \<Rightarrow> db" where
  "updateServiceReviewStats d serviceId =
     (if serviceId = [] then d
      else (let ratings = serviceRatings d serviceId;
                avg = (if length ratings > 0
                       then toFixed2 (sum_list ratings / of_nat (length ratings)) else 0);
                count = (if length ratings > 0 then length ratings else 0)
            in Service_findByIdAndUpdate d serviceId avg count))"

record reviewBody =
  rq_bookingId :: "string option"
  rq_serviceId :: "string option"
  rq_customerId :: "string option"
  rq_rating :: jsInput
  rq_comment :: "string option"

definition reviewErrorResponse :: "dbError \<Rightarrow> 'a response" where
  "reviewErrorResponse err =
     (case err of
        DuplicateKey \<Rightarrow> Failure 409 ''You have already reviewed this service''
      | ValidationError \<Rightarrow> Failure 400 ''Validation failed''
      | ServerError \<Rightarrow> Failure 500 ''Server error'')"

text \<open>
  \<open>createReview\<close>. The response carries the new review.
\<close>

definition createReview :: "env \<Rightarrow> db \<Rightarrow> reviewBody request \<Rightarrow> review option response \<times> db" where
  "createReview e d req =
     (case user req of
        None \<Rightarrow> (Failure 401 ''Not authenticated'', d)
      | Some u \<Rightarrow>
          if u_type u \<noteq> ''customer'' \<and> u_type u \<noteq> ''admin''
          then (Failure 403 ''Only customers or admins can create reviews'', d)
          else if orElse (rq_bookingId (body req)) [] = []
          then (Failure 400 ''bookingId is required'', d)
          else
     (case Service_findById d (orElse (rq_serviceId (body req)) []) of
        None \<Rightarrow> (Failure 404 ''Service not found'', d)
      | Some service \<Rightarrow>
     (case Booking_findById d (orElse (rq_bookingId (body req)) []) of
        None \<Rightarrow> (Failure 404 ''Booking not found'', d)
      | Some booking \<Rightarrow>
          if b_serviceId booking \<noteq> s_id service
          then (Failure 400 ''bookingId does not belong to the provided serviceId'', d)
          else if currentUserId u = []
          then (Failure 400 ''customerId is required'', d)
          else if u_type u \<noteq> ''admin'' \<and> b_customerId booking \<noteq> currentUserId u
          then (Failure 403 ''You can only review your own bookings'', d)
          else if u_type u = ''admin'' \<and> orElse (rq_customerId (body req)) [] \<noteq> [] \<and>
                  orElse (rq_customerId (body req)) [] \<noteq> b_customerId booking
          then (Failure 400 ''customerId does not match booking'', d)
          else if b_customerId booking = []
          then (Failure 400 ''Booking is missing customer information'', d)
          else
     (case toNumber (rq_rating (body req)) of
        None \<Rightarrow> (Failure 400 ''rating is required and must be numeric'', d)
      | Some rating \<Rightarrow>
     (let reviewPayload =
            \<lparr>r_id = uuid e, r_bookingId = b_id booking, r_serviceId = b_serviceId booking,
             r_customerId = b_customerId booking, r_rating = rating,
             r_comment = trim (case rq_comment (body req) of None \<Rightarrow> [] | Some c \<Rightarrow> c)\<rparr>
      in
     (case Review_create d reviewPayload of
        Inl err \<Rightarrow> (reviewErrorResponse err, d)
      | Inr d1 \<Rightarrow>
          (Success 201 (Some reviewPayload),
           updateServiceReviewStats d1 (r_serviceId reviewPayload))))))))"

definition updateReview :: "db \<Rightarrow> reviewBody request \<Rightarrow> review option response \<times> db" where
  "updateReview d req =
     (case user req of
        None \<Rightarrow> (Failure 401 ''Not authenticated'', d)
      | Some u \<Rightarrow>
     (case Review_findById d (params_id req) of
        None \<Rightarrow> (Failure 404 ''Review not found'', d)
      | Some review \<Rightarrow>
          if u_type u \<noteq> ''admin'' \<and> r_customerId review \<noteq> currentUserId u
          then (Failure 403 ''Forbidden'', d)
          else if rq_rating (body req) \<noteq> Undefined \<and> toNumber (rq_rating (body req)) = None
          then (Failure 400 ''rating must be numeric'', d)
          else
     (let shouldUpdateStats = (rq_rating (body req) \<noteq> Undefined);
          r1 = (case toNumber (rq_rating (body req)) of
                  None \<Rightarrow> review | Some rating \<Rightarrow> review\<lparr>r_rating := rating\<rparr>);
          r2 = (case rq_comment (body req) of
                  None \<Rightarrow> r1 | Some c \<Rightarrow> r1\<lparr>r_comment := trim c\<rparr>)
      in
     (case Review_save d r2 of
        Inl err \<Rightarrow>
          (if err = ValidationError then Failure 400 ''Validation failed''
           else Failure 500 ''Server error'', d)
      | Inr d1 \<Rightarrow>
          (Success 200 (Some r2),
           if shouldUpdateStats then updateServiceReviewStats d1 (r_serviceId r2) else d1)))))"

text \<open>
  \<open>deleteReview\<close>. The response \<open>{success: true, message: 'Review deleted'}\<close> is
  \<open>Success 200 None\<close>.
\<close>

definition deleteReview :: "db \<Rightarrow> unit request \<Rightarrow> review option response \<times> db" where
  "deleteReview d req =
     (case user req of
        None \<Rightarrow> (Failure 401 ''Not authenticated'', d)
      | Some u \<Rightarrow>
     (case Review_findById d (params_id req) of
        None \<Rightarrow> (Failure 404 ''Review not found'', d)
      | Some review \<Rightarrow>
          if u_type u \<noteq> ''admin'' \<and> r_customerId review \<noteq> currentUserId u
          then (Failure 403 ''Forbidden'', d)
          else (Success 200 None,
                updateServiceReviewStats (Review_deleteOne d review) (r_serviceId review))))"

section \<open>Statements and sample data\<close>

subsection \<open>Summaries used in the statements\<close>

text \<open>The account, the method and the amount of a transaction.\<close>

definition ledgerEntry :: "transaction \<Rightarrow> string \<times> string \<times> rat" where
  "ledgerEntry t = (t_customerId t, t_method t, t_amount t)"

text \<open>
  The review statistics in the words of the specification: the service exists, its
  review count is the number of the stored reviews whose \<open>serviceId\<close> is the service,
  and its rating is the mean of the ratings of those reviews rounded to two decimal
  places, or 0 when there is none.
\<close>

definition reviewStatsCurrent :: "db \<Rightarrow> string \<Rightarrow> bool" where
  "reviewStatsCurrent d serviceId =
     (case find (\<lambda>s. s_id s = serviceId) (services d) of
        None \<Rightarrow> False
      | Some s \<Rightarrow>
          s_reviewCount s = length (filter (\<lambda>r. r_serviceId r = serviceId) (reviews d)) \<and>
          s_rating s =
            (if filter (\<lambda>r. r_serviceId r = serviceId) (reviews d) = [] then 0
             else toFixed2
                    (sum_list (map r_rating (filter (\<lambda>r. r_serviceId r = serviceId) (reviews d))) /
                     of_nat (length (filter (\<lambda>r. r_serviceId r = serviceId) (reviews d))))))"

text \<open>The identifier, the rating and the review count of every stored service.\<close>

definition serviceStats :: "db \<Rightarrow> (string \<times> rat \<times> nat) list" where
  "serviceStats d = map (\<lambda>s. (s_id s, s_rating s, s_reviewCount s)) (services d)"

subsection \<open>Users and requests\<close>

definition customer :: authUser where
  "customer = \<lparr>u_id = ''cust'', u_type = ''customer''\<rparr>"

definition provider :: authUser where
  "provider = \<lparr>u_id = ''prov'', u_type = ''provider''\<rparr>"

definition stranger :: authUser where
  "stranger = \<lparr>u_id = ''someone-else'', u_type = ''customer''\<rparr>"

definition admin :: authUser where
  "admin = \<lparr>u_id = ''root'', u_type = ''admin''\<rparr>"

definition requestBy :: "authUser \<Rightarrow> string \<Rightarrow> 'b \<Rightarrow> 'b request" where
  "requestBy u i q = \<lparr>user = Some u, params_id = i, body = q\<rparr>"

subsection \<open>Bookings\<close>

definition emptyDb :: db where
  "emptyDb = \<lparr>bookings = [], transactions = [], payments = [], services = [], chats = [],
              reviews = [], users = [], withdrawals = []\<rparr>"

definition dinner :: booking where
  "dinner = \<lparr>b_id = ''booking-1'', b_customerId = ''cust'', b_providerId = ''prov'',
     b_serviceId = ''svc'', b_serviceName = ''Dinner'', b_date = ''2025-01-02'',
     b_startTime = ''18:00'', b_endTime = ''20:00'', b_totalHours = 2, b_totalAmount = 1001,
     b_depositAmount = 100, b_status = ''confirmed'', b_paymentStatus = ''paid'',
     b_specialRequests = [], b_cancelledBy = None, b_refundAmount = None\<rparr>"

definition dinnerDb :: db where
  "dinnerDb = emptyDb\<lparr>bookings := [dinner]\<rparr>"

definition snack :: booking where
  "snack = dinner\<lparr>b_serviceName := ''Snack'', b_totalAmount := 1, b_depositAmount := 0\<rparr>"

definition snackDb :: db where
  "snackDb = emptyDb\<lparr>bookings := [snack]\<rparr>"

definition dinnerAgain :: booking where
  "dinnerAgain = dinner\<lparr>b_id := ''booking-2'', b_customerId := ''cust-2''\<rparr>"

definition twoDinnersDb :: db where
  "twoDinnersDb = emptyDb\<lparr>bookings := [dinner, dinnerAgain]\<rparr>"

definition noChange :: bookingBody where
  "noChange = \<lparr>q_totalHours = Undefined, q_totalAmount = Undefined, q_depositAmount = Undefined,
     q_refundAmount = Undefined, q_date = None, q_startTime = None, q_endTime = None,
     q_specialRequests = None, q_status = None, q_paymentStatus = None, q_cancelledBy = None\<rparr>"

definition cancelRefunded :: bookingBody where
  "cancelRefunded = noChange\<lparr>q_status := Some ''cancelled'', q_paymentStatus := Some ''refunded''\<rparr>"

definition completePaid :: bookingBody where
  "completePaid = noChange\<lparr>q_status := Some ''completed'', q_paymentStatus := Some ''paid''\<rparr>"

text \<open>An environment whose Transaction model throws on every write.\<close>

definition ledgerDown :: env where
  "ledgerDown = mongo\<lparr>txCreate := (\<lambda>t. Some ServerError)\<rparr>"

text \<open>A Mongoose that removes undeclared fields from the filter of a query.\<close>

definition mongoStrictQuery :: env where
  "mongoStrictQuery = mongo\<lparr>strictQuery := True\<rparr>"


subsection \<open>Wallets, withdrawals and reviews\<close>



text \<open>The state after the provider has completed the paid dinner.\<close>

definition earned :: db where
  "earned = snd (updateBooking mongo dinnerDb (requestBy provider ''booking-1'' completePaid))"

definition withdraw :: "rat \<Rightarrow> withdrawalBody" where
  "withdraw n = \<lparr>wq_userId = None, wq_amount = Some n, wq_bankName = Some ''KBank'',
                 wq_accountNumber = Some ''123-4-56789-0'', wq_accountName = Some ''Provider''\<rparr>"

definition dinnerService :: service where
  "dinnerService = \<lparr>s_id = ''svc'', s_rating = 5, s_reviewCount = 1, s_bookingCount = 0\<rparr>"

definition earlierReview :: review where
  "earlierReview = \<lparr>r_id = ''review-1'', r_bookingId = ''booking-0'', r_serviceId = ''svc'',
                     r_customerId = ''cust-0'', r_rating = 5, r_comment = ''Lovely''\<rparr>"

text \<open>A second service, with two reviews of its own.\<close>

definition lunchService :: service where
  "lunchService = \<lparr>s_id = ''svc-2'', s_rating = 3 / 2, s_reviewCount = 2, s_bookingCount = 0\<rparr>"

definition coldLunch :: review where
  "coldLunch = \<lparr>r_id = ''review-2'', r_bookingId = ''booking-8'', r_serviceId = ''svc-2'',
                 r_customerId = ''cust-8'', r_rating = 1, r_comment = ''Cold''\<rparr>"

definition lateLunch :: review where
  "lateLunch = \<lparr>r_id = ''review-3'', r_bookingId = ''booking-9'', r_serviceId = ''svc-2'',
                 r_customerId = ''cust'', r_rating = 2, r_comment = ''Late''\<rparr>"

definition reviewDb :: db where
  "reviewDb = emptyDb\<lparr>bookings := [dinner], services := [dinnerService, lunchService],
                      reviews := [coldLunch, earlierReview, lateLunch]\<rparr>"

definition rate :: "rat \<Rightarrow> reviewBody" where
  "rate n = \<lparr>rq_bookingId = Some ''booking-1'', rq_serviceId = Some ''svc'', rq_customerId = None,
             rq_rating = Numeric n, rq_comment = Some ''Good''\<rparr>"

section \<open>Properties of the bookings controller\<close>

subsection \<open>Steps of updateBooking\<close>

lemma find_map_replace:
  "find (\<lambda>x. key x = k) xs = Some y \<Longrightarrow> key z = k \<Longrightarrow>
   find (\<lambda>x. key x = k) (map (\<lambda>x. if key x = key z then z else x) xs) = Some z"
  by (induction xs) (auto split: if_splits)

lemma find_Some_key: "find (\<lambda>x. key x = k) xs = Some y \<Longrightarrow> key y = k"
  by (induction xs) (auto split: if_splits)

lemma updateBooking_success:
  assumes "updateBooking e d req = (Success c dat, d')"
  obtains u b0 b d2 b2 where
    "user req = Some u" "Booking_findById d (params_id req) = Some b0"
    "canAccessBooking b0 u" "assignFields (body req) u b0 = Inr b"
    "ledgerSideEffects e d b = Inr (d2, b2)" "Booking_save d2 b2 = Inr d'"
    "dat = formatBookingResponse b2 (Chat_findOne d' (b_id b2))" "c = 200"
proof -
  from assms obtain u where u: "user req = Some u"
    by (cases "user req") (auto simp: updateBooking_def)
  from assms u obtain b0 where b0: "Booking_findById d (params_id req) = Some b0"
    by (cases "Booking_findById d (params_id req)") (auto simp: updateBooking_def)
  from assms u b0 have acc: "canAccessBooking b0 u"
    by (cases "canAccessBooking b0 u") (auto simp: updateBooking_def)
  from assms u b0 acc obtain b where b: "assignFields (body req) u b0 = Inr b"
    by (cases "assignFields (body req) u b0") (auto simp: updateBooking_def)
  from assms u b0 acc b obtain d2 b2 where l: "ledgerSideEffects e d b = Inr (d2, b2)"
    by (cases "ledgerSideEffects e d b")
       (auto simp: updateBooking_def errorResponse_def split: dbError.splits)
  from assms u b0 acc b l have s: "Booking_save d2 b2 = Inr d'"
    by (cases "Booking_save d2 b2")
       (auto simp: updateBooking_def errorResponse_def split: dbError.splits)
  from assms u b0 acc b l s
  have "dat = formatBookingResponse b2 (Chat_findOne d' (b_id b2))" "c = 200"
    by (auto simp: updateBooking_def)
  with u b0 acc b l s that show thesis by blast
qed

lemma transactions_markPaymentRefunded [simp]:
  "transactions (markPaymentRefunded e d b r) = transactions d"
  by (simp add: markPaymentRefunded_def Payment_save_def split: option.splits)

lemma bookings_markPaymentRefunded [simp]:
  "bookings (markPaymentRefunded e d b r) = bookings d"
  by (simp add: markPaymentRefunded_def Payment_save_def split: option.splits)

lemma transactions_syncBookingCount [simp]:
  "transactions (syncBookingCount d b) = transactions d"
  by (simp add: syncBookingCount_def Service_save_def Let_def split: option.splits)

lemma bookings_syncBookingCount [simp]:
  "bookings (syncBookingCount d b) = bookings d"
  by (simp add: syncBookingCount_def Service_save_def Let_def split: option.splits)

lemma Transaction_create_Inr:
  "Transaction_create e d t = Inr d1 \<Longrightarrow>
     txCreate e t = None \<and> d1 = d\<lparr>transactions := transactions d @ [TransactionSchema_cast t]\<rparr>"
  by (auto simp: Transaction_create_def split: option.splits)

lemma trim_methods:
  "trim ''refund'' = ''refund''" "trim ''compensation'' = ''compensation''"
  "trim ''earning'' = ''earning''"
  by (simp_all add: trim_def isWhitespace_def)

lemma ledgerEntry_refundTransaction:
  "ledgerEntry (TransactionSchema_cast (refundTransaction b r)) = (b_customerId b, ''refund'', r)"
  by (simp add: ledgerEntry_def TransactionSchema_cast_def TransactionSchema_paths_def
                refundTransaction_def trim_methods)

lemma ledgerEntry_compensationTransaction:
  "ledgerEntry (TransactionSchema_cast (compensationTransaction b c)) =
     (b_providerId b, ''compensation'', c)"
  by (simp add: ledgerEntry_def TransactionSchema_cast_def TransactionSchema_paths_def
                compensationTransaction_def trim_methods)

lemma Booking_save_Inr:
  "Booking_save d b = Inr d' \<Longrightarrow>
     validateBooking b \<and> transactions d' = transactions d \<and>
     bookings d' = map (\<lambda>x. if b_id x = b_id b then b else x) (bookings d)"
  by (auto simp: Booking_save_def split: if_splits)

lemma processRefund_skip:
  "\<not> refundDue b \<or> alreadyProcessed b \<Longrightarrow> processRefund e d b = Inr (d, b)"
  by (auto simp: processRefund_def)

lemma createRefund_Inr:
  "createRefund e d b r = Inr d1 \<Longrightarrow>
     bookings d1 = bookings d \<and> (0 < r \<longrightarrow> txCreate e (refundTransaction b r) = None) \<and>
     transactions d1 =
       transactions d @ (if 0 < r then [TransactionSchema_cast (refundTransaction b r)] else [])"
  by (auto simp: createRefund_def split: if_splits sum.splits dest!: Transaction_create_Inr)

lemma createCompensation_Inr:
  "createCompensation e d b c = Inr d1 \<Longrightarrow>
     bookings d1 = bookings d \<and> (0 < c \<longrightarrow> txCreate e (compensationTransaction b c) = None) \<and>
     transactions d1 =
       transactions d @
       (if 0 < c then [TransactionSchema_cast (compensationTransaction b c)] else [])"
  by (auto simp: createCompensation_def split: if_splits sum.splits dest!: Transaction_create_Inr)

lemma processRefund_Inr:
  assumes "processRefund e d b = Inr (d1, b1)" "refundDue b" "\<not> alreadyProcessed b"
  shows "\<exists>r c. refundSplit b = (r, c, b1) \<and> bookings d1 = bookings d \<and>
           transactions d1 =
             transactions d @
             (if 0 < r then [TransactionSchema_cast (refundTransaction b1 r)] else []) @
             (if 0 < c then [TransactionSchema_cast (compensationTransaction b1 c)] else [])"
proof -
  obtain r c b' where rs: "refundSplit b = (r, c, b')"
    by (cases "refundSplit b") auto
  from assms rs obtain da where da: "createRefund e d b' r = Inr da"
    by (cases "createRefund e d b' r") (auto simp: processRefund_def)
  from assms rs da obtain dc where dc: "createCompensation e da b' c = Inr dc"
    by (cases "createCompensation e da b' c") (auto simp: processRefund_def)
  from assms rs da dc have eq: "d1 = dc" "b1 = b'"
    by (auto simp: processRefund_def)
  from createRefund_Inr[OF da] createCompensation_Inr[OF dc] rs eq
  show ?thesis by auto
qed

lemma processEarning_skip:
  "\<not> (b_status b = ''completed'' \<and> b_paymentStatus b = ''paid'') \<Longrightarrow> processEarning e d b = Inr d"
  by (auto simp: processEarning_def)


lemma refundSplit_fields:
  "refundSplit b = (r, c, b1) \<Longrightarrow>
     b_status b1 = b_status b \<and> b_paymentStatus b1 = b_paymentStatus b \<and>
     b_cancelledBy b1 = b_cancelledBy b \<and> b_totalAmount b1 = b_totalAmount b \<and>
     b_customerId b1 = b_customerId b \<and> b_providerId b1 = b_providerId b \<and>
     b_serviceName b1 = b_serviceName b \<and> b_id b1 = b_id b"
  by (auto simp: refundSplit_def Let_def split: if_splits)

lemma processRefund_fields:
  assumes "processRefund e d b = Inr (d1, b1)"
  shows "b_status b1 = b_status b \<and> b_paymentStatus b1 = b_paymentStatus b \<and>
         b_cancelledBy b1 = b_cancelledBy b \<and> b_totalAmount b1 = b_totalAmount b \<and>
         b_customerId b1 = b_customerId b \<and> b_providerId b1 = b_providerId b \<and>
         b_serviceName b1 = b_serviceName b \<and> b_id b1 = b_id b"
proof (cases "refundDue b \<and> \<not> alreadyProcessed b")
  case True
  with processRefund_Inr[OF assms] obtain r c where "refundSplit b = (r, c, b1)" by blast
  then show ?thesis by (rule refundSplit_fields)
next
  case False
  then have "processRefund e d b = Inr (d, b)" by (auto simp: processRefund_def)
  with assms show ?thesis by simp
qed

lemma ledgerSideEffects_Inr:
  assumes "ledgerSideEffects e d b = Inr (d2, b2)"
  obtains d1 where "processRefund e d b = Inr (d1, b2)" "processEarning e d1 b2 = Inr d2"
proof -
  from assms obtain d1 b1 where p: "processRefund e d b = Inr (d1, b1)"
    by (cases "processRefund e d b") (auto simp: ledgerSideEffects_def)
  from assms p obtain dx where q: "processEarning e d1 b1 = Inr dx"
    by (cases "processEarning e d1 b1") (auto simp: ledgerSideEffects_def)
  from assms p q have "dx = d2" "b1 = b2" by (auto simp: ledgerSideEffects_def)
  with p q that show thesis by blast
qed

lemma Booking_save_find:
  assumes "Booking_save d b = Inr d'" "Booking_findById d i = Some b0" "b_id b = i"
  shows "Booking_findById d' i = Some b"
proof -
  from assms(1) have "bookings d' = map (\<lambda>x. if b_id x = b_id b then b else x) (bookings d)"
    by (simp add: Booking_save_Inr)
  with find_map_replace[of b_id i "bookings d" b0 b] assms(2,3)
  show ?thesis by (simp add: Booking_findById_def)
qed

lemma processRefund_bookings:
  assumes "processRefund e d b = Inr (d1, b1)"
  shows "bookings d1 = bookings d"
proof (cases "refundDue b \<and> \<not> alreadyProcessed b")
  case True
  with processRefund_Inr[OF assms] show ?thesis by blast
next
  case False
  then have "processRefund e d b = Inr (d, b)" by (auto simp: processRefund_def)
  with assms show ?thesis by simp
qed

lemma setNumeric_Inr:
  "setNumeric f v assign b = Inr b' \<Longrightarrow>
     (v = Undefined \<and> b' = b) \<or> (\<exists>n. v = Numeric n \<and> b' = assign n b)"
  by (cases v) (auto simp: setNumeric_def)

lemma applyNumericFields_fields:
  assumes "applyNumericFields q b = Inr b'"
  shows "b_id b' = b_id b \<and> b_customerId b' = b_customerId b \<and> b_providerId b' = b_providerId b \<and>
         b_serviceId b' = b_serviceId b \<and> b_serviceName b' = b_serviceName b \<and>
         b_status b' = b_status b \<and> b_paymentStatus b' = b_paymentStatus b \<and>
         b_cancelledBy b' = b_cancelledBy b \<and>
         b_refundAmount b' =
           (case q_refundAmount q of Numeric n \<Rightarrow> Some n | _ \<Rightarrow> b_refundAmount b)"
proof -
  from assms obtain b1 where 1: "setNumeric ''totalHours'' (q_totalHours q) (\<lambda>n x. x\<lparr>b_totalHours := n\<rparr>) b = Inr b1"
    by (auto simp: applyNumericFields_def split: sum.splits)
  from assms 1 obtain b2 where 2: "setNumeric ''totalAmount'' (q_totalAmount q) (\<lambda>n x. x\<lparr>b_totalAmount := n\<rparr>) b1 = Inr b2"
    by (auto simp: applyNumericFields_def split: sum.splits)
  from assms 1 2 obtain b3 where 3: "setNumeric ''depositAmount'' (q_depositAmount q) (\<lambda>n x. x\<lparr>b_depositAmount := n\<rparr>) b2 = Inr b3"
    by (auto simp: applyNumericFields_def split: sum.splits)
  from assms 1 2 3 have 4: "setNumeric ''refundAmount'' (q_refundAmount q) (\<lambda>n x. x\<lparr>b_refundAmount := Some n\<rparr>) b3 = Inr b'"
    by (auto simp: applyNumericFields_def split: sum.splits)
  from setNumeric_Inr[OF 1] have a: "b_id b1 = b_id b \<and> b_customerId b1 = b_customerId b \<and> b_providerId b1 = b_providerId b \<and>
         b_serviceId b1 = b_serviceId b \<and> b_serviceName b1 = b_serviceName b \<and>
         b_status b1 = b_status b \<and> b_paymentStatus b1 = b_paymentStatus b \<and>
         b_cancelledBy b1 = b_cancelledBy b \<and> b_refundAmount b1 = b_refundAmount b" by auto
  from setNumeric_Inr[OF 2] have b: "b_id b2 = b_id b1 \<and> b_customerId b2 = b_customerId b1 \<and> b_providerId b2 = b_providerId b1 \<and>
         b_serviceId b2 = b_serviceId b1 \<and> b_serviceName b2 = b_serviceName b1 \<and>
         b_status b2 = b_status b1 \<and> b_paymentStatus b2 = b_paymentStatus b1 \<and>
         b_cancelledBy b2 = b_cancelledBy b1 \<and> b_refundAmount b2 = b_refundAmount b1" by auto
  from setNumeric_Inr[OF 3] have c: "b_id b3 = b_id b2 \<and> b_customerId b3 = b_customerId b2 \<and> b_providerId b3 = b_providerId b2 \<and>
         b_serviceId b3 = b_serviceId b2 \<and> b_serviceName b3 = b_serviceName b2 \<and>
         b_status b3 = b_status b2 \<and> b_paymentStatus b3 = b_paymentStatus b2 \<and>
         b_cancelledBy b3 = b_cancelledBy b2 \<and> b_refundAmount b3 = b_refundAmount b2" by auto
  from setNumeric_Inr[OF 4] have d: "b_id b' = b_id b3 \<and> b_customerId b' = b_customerId b3 \<and> b_providerId b' = b_providerId b3 \<and>
         b_serviceId b' = b_serviceId b3 \<and> b_serviceName b' = b_serviceName b3 \<and>
         b_status b' = b_status b3 \<and> b_paymentStatus b' = b_paymentStatus b3 \<and>
         b_cancelledBy b' = b_cancelledBy b3 \<and>
         b_refundAmount b' = (case q_refundAmount q of Numeric n \<Rightarrow> Some n | _ \<Rightarrow> b_refundAmount b3)" by auto
  from a b c d show ?thesis by (simp split: jsInput.splits)
qed

lemma applyStringFields_fields:
  "b_id (applyStringFields q b) = b_id b \<and> b_customerId (applyStringFields q b) = b_customerId b \<and>
   b_providerId (applyStringFields q b) = b_providerId b \<and>
   b_serviceId (applyStringFields q b) = b_serviceId b \<and>
   b_serviceName (applyStringFields q b) = b_serviceName b \<and>
   b_status (applyStringFields q b) = b_status b \<and>
   b_paymentStatus (applyStringFields q b) = b_paymentStatus b \<and>
   b_cancelledBy (applyStringFields q b) = b_cancelledBy b \<and>
   b_refundAmount (applyStringFields q b) = b_refundAmount b"
  by (simp add: applyStringFields_def Let_def split: option.splits)

lemma applyStatus_fields:
  assumes "applyStatus q u b = Inr b'"
  shows "b_id b' = b_id b \<and> b_customerId b' = b_customerId b \<and> b_providerId b' = b_providerId b \<and>
         b_serviceId b' = b_serviceId b \<and> b_serviceName b' = b_serviceName b \<and>
         b_paymentStatus b' = b_paymentStatus b \<and> b_refundAmount b' = b_refundAmount b \<and>
         b_status b' = (case q_status q of None \<Rightarrow> b_status b | Some st \<Rightarrow> st)"
  using assms by (auto simp: applyStatus_def split: option.splits if_splits)

lemma applyPaymentStatus_fields:
  assumes "applyPaymentStatus q b = Inr b'"
  shows "b_id b' = b_id b \<and> b_customerId b' = b_customerId b \<and> b_providerId b' = b_providerId b \<and>
         b_serviceId b' = b_serviceId b \<and> b_serviceName b' = b_serviceName b \<and>
         b_status b' = b_status b \<and> b_cancelledBy b' = b_cancelledBy b \<and>
         b_refundAmount b' = b_refundAmount b \<and>
         b_paymentStatus b' = (case q_paymentStatus q of None \<Rightarrow> b_paymentStatus b | Some ps \<Rightarrow> ps)"
  using assms by (auto simp: applyPaymentStatus_def split: option.splits if_splits)

lemma assignFields_fields:
  assumes "assignFields q u b = Inr b'"
  shows "b_id b' = b_id b \<and> b_customerId b' = b_customerId b \<and> b_providerId b' = b_providerId b \<and>
         b_serviceId b' = b_serviceId b \<and> b_serviceName b' = b_serviceName b \<and>
         b_status b' = (case q_status q of None \<Rightarrow> b_status b | Some st \<Rightarrow> st) \<and>
         b_paymentStatus b' = (case q_paymentStatus q of None \<Rightarrow> b_paymentStatus b | Some ps \<Rightarrow> ps) \<and>
         b_refundAmount b' =
           (case q_refundAmount q of Numeric n \<Rightarrow> Some n | _ \<Rightarrow> b_refundAmount b)"
proof -
  from assms obtain b1 where 1: "applyNumericFields q b = Inr b1"
    by (auto simp: assignFields_def split: sum.splits)
  from assms 1 obtain b2 where 2: "applyStatus q u (applyStringFields q b1) = Inr b2"
    by (auto simp: assignFields_def split: sum.splits)
  from assms 1 2 have 3: "applyPaymentStatus q b2 = Inr b'"
    by (auto simp: assignFields_def split: sum.splits)
  from applyNumericFields_fields[OF 1] applyStringFields_fields[of q b1]
       applyStatus_fields[OF 2] applyPaymentStatus_fields[OF 3]
  show ?thesis by (auto split: jsInput.splits option.splits)
qed

lemma ledgerSideEffects_skip:
  assumes "\<not> refundDue b \<or> alreadyProcessed b"
      and "\<not> (b_status b = ''completed'' \<and> b_paymentStatus b = ''paid'')"
  shows "ledgerSideEffects e d b = Inr (d, b)"
  using assms by (simp add: ledgerSideEffects_def processRefund_skip processEarning_skip)

lemma updateBooking_no_ledger_write:
  assumes "\<And>u b0 b. \<lbrakk>user req = Some u; Booking_findById d (params_id req) = Some b0;
                      assignFields (body req) u b0 = Inr b\<rbrakk>
             \<Longrightarrow> (\<not> refundDue b \<or> alreadyProcessed b) \<and>
                 \<not> (b_status b = ''completed'' \<and> b_paymentStatus b = ''paid'')"
  shows "transactions (snd (updateBooking e d req)) = transactions d"
proof (cases "user req")
  case None
  then show ?thesis by (simp add: updateBooking_def)
next
  case (Some u)
  show ?thesis
  proof (cases "Booking_findById d (params_id req)")
    case None
    with Some show ?thesis by (simp add: updateBooking_def)
  next
    case b0: (Some b0)
    show ?thesis
    proof (cases "assignFields (body req) u b0")
      case (Inl m)
      with Some b0 show ?thesis by (simp add: updateBooking_def)
    next
      case (Inr b)
      from assms[OF Some b0 Inr] have l: "ledgerSideEffects e d b = Inr (d, b)"
        by (intro ledgerSideEffects_skip) auto
      show ?thesis
      proof (cases "Booking_save d b")
        case (Inl err)
        with Some b0 Inr l show ?thesis by (simp add: updateBooking_def)
      next
        case s: (Inr d3)
        then have "transactions d3 = transactions d" by (simp add: Booking_save_Inr)
        with Some b0 Inr l s show ?thesis by (simp add: updateBooking_def)
      qed
    qed
  qed
qed

lemma inferredCancelledBy_truthy: "inferredCancelledBy q u \<noteq> []"
  by (auto simp: inferredCancelledBy_def split: option.splits)

lemma assignFields_cancelled:
  assumes "assignFields q u b = Inr b'" "q_status q = Some ''cancelled''"
  shows "\<exists>c. b_cancelledBy b' = Some c \<and> c \<noteq> []"
proof -
  from assms obtain b1 where 1: "applyNumericFields q b = Inr b1"
    by (auto simp: assignFields_def split: sum.splits)
  from assms 1 obtain b2 where 2: "applyStatus q u (applyStringFields q b1) = Inr b2"
    by (auto simp: assignFields_def split: sum.splits)
  from assms 1 2 have 3: "applyPaymentStatus q b2 = Inr b'"
    by (auto simp: assignFields_def split: sum.splits)
  from 2 assms(2) have "b_cancelledBy b2 = Some (inferredCancelledBy q u)"
    by (auto simp: applyStatus_def split: if_splits)
  with applyPaymentStatus_fields[OF 3] inferredCancelledBy_truthy show ?thesis by simp
qed

lemma errorResponse_failed: "\<not> succeeded (errorResponse err)"
  by (cases err) (simp_all add: errorResponse_def)

lemma createRefund_cases:
  obtains err where "createRefund e d b r = Inl (err, d)" "0 < r" "txCreate e (refundTransaction b r) = Some err"
  | d1 where "createRefund e d b r = Inr d1" "bookings d1 = bookings d"
             "0 < r \<longrightarrow> txCreate e (refundTransaction b r) = None"
proof (cases "createRefund e d b r")
  case (Inl x)
  then have "0 < r \<and> txCreate e (refundTransaction b r) = Some (fst x) \<and> snd x = d"
    by (auto simp: createRefund_def Transaction_create_def split: if_splits option.splits)
  with Inl that(1)[of "fst x"] show thesis by (cases x) auto
next
  case (Inr d1)
  with createRefund_Inr[OF Inr] that(2) show thesis by blast
qed

lemma createCompensation_cases:
  obtains err where "createCompensation e d b c = Inl (err, d)" "0 < c" "txCreate e (compensationTransaction b c) = Some err"
  | d1 where "createCompensation e d b c = Inr d1" "bookings d1 = bookings d"
             "0 < c \<longrightarrow> txCreate e (compensationTransaction b c) = None"
proof (cases "createCompensation e d b c")
  case (Inl x)
  then have "0 < c \<and> txCreate e (compensationTransaction b c) = Some (fst x) \<and> snd x = d"
    by (auto simp: createCompensation_def Transaction_create_def split: if_splits option.splits)
  with Inl that(1)[of "fst x"] show thesis by (cases x) auto
next
  case (Inr d1)
  with createCompensation_Inr[OF Inr] that(2) show thesis by blast
qed

lemma processRefund_rejected:
  assumes due: "refundDue b" "\<not> alreadyProcessed b" and rs: "refundSplit b = (r, c, b1)"
      and rej: "0 < r \<and> txCreate e (refundTransaction b1 r) \<noteq> None \<or>
                0 < c \<and> txCreate e (compensationTransaction b1 c) \<noteq> None"
  shows "\<exists>err d1. processRefund e d b = Inl (err, d1) \<and> bookings d1 = bookings d"
proof (rule createRefund_cases[of e d b1 r])
  fix err assume "createRefund e d b1 r = Inl (err, d)"
  with due rs show ?thesis by (simp add: processRefund_def)
next
  fix da assume da: "createRefund e d b1 r = Inr da" "bookings da = bookings d"
     "0 < r \<longrightarrow> txCreate e (refundTransaction b1 r) = None"
  with rej have c: "0 < c" "txCreate e (compensationTransaction b1 c) \<noteq> None" by auto
  show ?thesis
  proof (rule createCompensation_cases[of e da b1 c])
    fix err assume "createCompensation e da b1 c = Inl (err, da)"
    with due rs da show ?thesis by (simp add: processRefund_def)
  next
    fix dc assume "createCompensation e da b1 c = Inr dc" "bookings dc = bookings da"
      "0 < c \<longrightarrow> txCreate e (compensationTransaction b1 c) = None"
    with c show ?thesis by simp
  qed
qed

lemma processEarning_rejected:
  assumes "b_status b = ''completed''" "b_paymentStatus b = ''paid''"
      and "Transaction_findOne e d (b_providerId b) ''topup'' (earningNote b) = None"
      and "txCreate e (earningTransaction b) \<noteq> None"
  shows "\<exists>err. processEarning e d b = Inl (err, d)"
  using assms by (auto simp: processEarning_def Transaction_create_def split: option.splits)

subsection \<open>The refund split\<close>

text \<open>
  Claim C1, as stated, fails. The stored booking records no refund. The provider cancels
  it with payment status \<open>refunded\<close> and names a refund of 250 in the body of the request.
  The update succeeds, the booking records a refund of 250 where its total amount is
  1001, and no transaction is written.
\<close>

theorem cancellation_refund_split_counterexample:
  "Booking_findById dinnerDb ''booking-1'' = Some dinner \<and>
   b_refundAmount dinner = None \<and> b_totalAmount dinner = 1001 \<and>
   fst (updateBooking mongo dinnerDb
          (requestBy provider ''booking-1'' (cancelRefunded\<lparr>q_refundAmount := Numeric 250\<rparr>))) =
     Success 200
       (dinner\<lparr>b_status := ''cancelled'', b_paymentStatus := ''refunded'',
               b_cancelledBy := Some ''provider'', b_refundAmount := Some 250\<rparr>, None) \<and>
   transactions
     (snd (updateBooking mongo dinnerDb
             (requestBy provider ''booking-1'' (cancelRefunded\<lparr>q_refundAmount := Numeric 250\<rparr>)))) =
     []"
  by code_simp

text \<open>
  Claim C1, amended. Let an update succeed and leave the booking cancelled with payment
  status \<open>refunded\<close> or \<open>partially_refunded\<close>; let the stored booking record no positive
  refund, and let the request name no positive \<open>refundAmount\<close>. If the provider
  cancelled, the booking records a refund of \<open>totalAmount\<close>, the customer receives one
  refund transaction of that amount (none if it is 0) and nobody receives a compensation.
  If the customer cancelled, the refund is \<open>floor (totalAmount * 0.5)\<close> and the provider
  receives a compensation of \<open>totalAmount - floor (totalAmount * 0.5)\<close>; a transaction is
  written for each of the two amounts that is positive. The booking is stored with the
  recorded refund.
\<close>

theorem cancellation_refund_split:
  assumes upd: "updateBooking e d req = (Success c (bk, ch), d')"
    and b0: "Booking_findById d (params_id req) = Some b0"
    and fresh: "\<not> alreadyProcessed b0"
    and nora: "\<not> (\<exists>r. q_refundAmount (body req) = Numeric r \<and> 0 < r)"
    and st: "b_status bk = ''cancelled''"
    and ps: "b_paymentStatus bk = ''refunded'' \<or> b_paymentStatus bk = ''partially_refunded''"
  shows "(b_cancelledBy bk = Some ''provider'' \<longrightarrow>
            b_refundAmount bk = Some (b_totalAmount bk) \<and>
            (\<exists>new. transactions d' = transactions d @ new \<and>
               map ledgerEntry new =
                 (if 0 < b_totalAmount bk
                  then [(b_customerId bk, ''refund'', b_totalAmount bk)] else []))) \<and>
         (b_cancelledBy bk = Some ''customer'' \<longrightarrow>
            b_refundAmount bk = Some (Math_floor (b_totalAmount bk * (1 / 2))) \<and>
            (\<exists>new. transactions d' = transactions d @ new \<and>
               map ledgerEntry new =
                 (if 0 < Math_floor (b_totalAmount bk * (1 / 2))
                  then [(b_customerId bk, ''refund'', Math_floor (b_totalAmount bk * (1 / 2)))]
                  else []) @
                 (if 0 < b_totalAmount bk - Math_floor (b_totalAmount bk * (1 / 2))
                  then [(b_providerId bk, ''compensation'',
                         b_totalAmount bk - Math_floor (b_totalAmount bk * (1 / 2)))]
                  else []))) \<and>
         Booking_findById d' (params_id req) = Some bk"
proof -
  from updateBooking_success[OF upd] b0 obtain u b d2 b2 where
    u: "user req = Some u" and asg: "assignFields (body req) u b0 = Inr b" and
    led: "ledgerSideEffects e d b = Inr (d2, b2)" and sav: "Booking_save d2 b2 = Inr d'"
    and dat: "(bk, ch) = formatBookingResponse b2 (Chat_findOne d' (b_id b2))"
    by (metis option.inject)
  from assignFields_fields[OF asg] fresh nora have fresh': "\<not> alreadyProcessed b"
    by (cases "q_refundAmount (body req)") (auto simp: alreadyProcessed_def)
  from dat have bk: "b2 = bk" by (simp add: formatBookingResponse_def)
  from ledgerSideEffects_Inr[OF led] bk obtain d1 where
    pr: "processRefund e d b = Inr (d1, bk)" and pe: "processEarning e d1 bk = Inr d2"
    by blast
  note f = processRefund_fields[OF pr]
  from st have "processEarning e d1 bk = Inr d1" by (simp add: processEarning_def)
  with pe have d2: "d2 = d1" by simp
  from sav have tr: "transactions d' = transactions d2" by (simp add: Booking_save_Inr)
  have idb: "b_id b0 = params_id req"
    using b0 unfolding Booking_findById_def by (rule find_Some_key)
  have idb: "b_id bk = params_id req"
    using f assignFields_fields[OF asg] idb by simp
  have due: "refundDue b" if "b_cancelledBy bk = Some ''provider'' \<or> b_cancelledBy bk = Some ''customer''"
    using that f st ps by (auto simp: refundDue_def)
  have found: "Booking_findById d' (params_id req) = Some bk"
  proof -
    have "bookings d2 = bookings d"
      using processRefund_bookings[OF pr] d2 by simp
    then have "Booking_findById d2 (params_id req) = Some b0"
      using b0 by (simp add: Booking_findById_def)
    with Booking_save_find[OF sav[unfolded bk] _ idb] show ?thesis by simp
  qed
  have prov: "b_refundAmount bk = Some (b_totalAmount bk) \<and>
            (\<exists>new. transactions d' = transactions d @ new \<and>
               map ledgerEntry new =
                 (if 0 < b_totalAmount bk
                  then [(b_customerId bk, ''refund'', b_totalAmount bk)] else []))"
    if p: "b_cancelledBy bk = Some ''provider''"
  proof -
    from processRefund_Inr[OF pr due fresh'] p obtain r c where
      rs: "refundSplit b = (r, c, bk)" and
      t: "transactions d1 =
            transactions d @
            (if 0 < r then [TransactionSchema_cast (refundTransaction bk r)] else []) @
            (if 0 < c then [TransactionSchema_cast (compensationTransaction bk c)] else [])"
      by blast
    from f p have "b_cancelledBy b = Some ''provider''" by simp
    with rs f have v: "r = b_totalAmount bk" "c = 0" "b_refundAmount bk = Some (b_totalAmount bk)"
      by (auto simp: refundSplit_def)
    from t v tr d2 show ?thesis
      by (auto simp: ledgerEntry_refundTransaction)
  qed
  have cust: "b_refundAmount bk = Some (Math_floor (b_totalAmount bk * (1 / 2))) \<and>
            (\<exists>new. transactions d' = transactions d @ new \<and>
               map ledgerEntry new =
                 (if 0 < Math_floor (b_totalAmount bk * (1 / 2))
                  then [(b_customerId bk, ''refund'', Math_floor (b_totalAmount bk * (1 / 2)))]
                  else []) @
                 (if 0 < b_totalAmount bk - Math_floor (b_totalAmount bk * (1 / 2))
                  then [(b_providerId bk, ''compensation'',
                         b_totalAmount bk - Math_floor (b_totalAmount bk * (1 / 2)))]
                  else []))"
    if p: "b_cancelledBy bk = Some ''customer''"
  proof -
    from processRefund_Inr[OF pr due fresh'] p obtain r c where
      rs: "refundSplit b = (r, c, bk)" and
      t: "transactions d1 =
            transactions d @
            (if 0 < r then [TransactionSchema_cast (refundTransaction bk r)] else []) @
            (if 0 < c then [TransactionSchema_cast (compensationTransaction bk c)] else [])"
      by blast
    from f p have "b_cancelledBy b = Some ''customer''" by simp
    with rs f have v: "r = Math_floor (b_totalAmount bk * (1 / 2))"
        "c = b_totalAmount bk - Math_floor (b_totalAmount bk * (1 / 2))"
        "b_refundAmount bk = Some (Math_floor (b_totalAmount bk * (1 / 2)))"
      by (auto simp: refundSplit_def Let_def)
    from t v tr d2 show ?thesis
      by (auto simp: ledgerEntry_refundTransaction ledgerEntry_compensationTransaction)
  qed
  from prov cust found show ?thesis by blast
qed

theorem cancellation_refund_split_witness:
  "\<exists>new. transactions (snd (updateBooking mongo dinnerDb
                              (requestBy customer ''booking-1'' cancelRefunded))) =
            transactions dinnerDb @ new \<and>
          map ledgerEntry new = [(''cust'', ''refund'', 500), (''prov'', ''compensation'', 501)]"
proof -
  define req where "req = requestBy customer ''booking-1'' cancelRefunded"
  define bk where "bk = dinner\<lparr>b_status := ''cancelled'', b_paymentStatus := ''refunded'',
                             b_cancelledBy := Some ''customer'', b_refundAmount := Some 500\<rparr>"
  have "fst (updateBooking mongo dinnerDb req) = Success 200 (bk, None)"
    unfolding req_def bk_def by code_simp
  then have upd: "updateBooking mongo dinnerDb req =
                    (Success 200 (bk, None), snd (updateBooking mongo dinnerDb req))"
    by (simp add: prod_eq_iff)
  have b0: "Booking_findById dinnerDb (params_id req) = Some dinner"
    unfolding req_def by code_simp
  have fresh: "\<not> alreadyProcessed dinner"
    by code_simp
  have nora: "\<not> (\<exists>r. q_refundAmount (body req) = Numeric r \<and> 0 < r)"
    by (simp add: req_def requestBy_def cancelRefunded_def noChange_def)
  have st: "b_status bk = ''cancelled''"
    by (simp add: bk_def)
  have ps: "b_paymentStatus bk = ''refunded'' \<or> b_paymentStatus bk = ''partially_refunded''"
    by (simp add: bk_def)
  have v: "b_cancelledBy bk = Some ''customer''" "b_totalAmount bk = 1001"
      "b_customerId bk = ''cust''" "b_providerId bk = ''prov''"
    by (simp_all add: bk_def dinner_def)
  have fl: "Math_floor (1001 * (1 / 2)) = 500"
    by code_simp
  from cancellation_refund_split[OF upd b0 fresh nora st ps] v fl
  show ?thesis
    by (simp add: req_def)
qed

subsection \<open>The provider's earning\<close>



subsection \<open>Replaying a cancellation\<close>

text \<open>
  Claim C3 fails on the code. A customer cancels a booking whose \<open>totalAmount\<close> is 1 and
  sends the request twice. The refund is \<open>floor 0.5 = 0\<close>: no refund transaction is
  written and the booking records the refund amount 0, which the test for a refund that
  has been processed, \<open>booking.refundAmount && booking.refundAmount > 0\<close>, does not
  recognise. Each of the two calls writes a compensation of 1 for the provider.
\<close>

theorem refund_replay_repeats_compensation:
  "Booking_findById snackDb ''booking-1'' = Some snack \<and> b_totalAmount snack = 1 \<and>
   b_refundAmount snack = None \<and>
   succeeded (fst (updateBooking mongo snackDb (requestBy customer ''booking-1'' cancelRefunded))) \<and>
   map ledgerEntry
     (transactions
        (snd (updateBooking mongo snackDb (requestBy customer ''booking-1'' cancelRefunded)))) =
     [(''prov'', ''compensation'', 1)] \<and>
   succeeded (fst (updateBooking mongo
                     (snd (updateBooking mongo snackDb (requestBy customer ''booking-1'' cancelRefunded)))
                     (requestBy customer ''booking-1'' cancelRefunded))) \<and>
   map ledgerEntry
     (transactions
        (snd (updateBooking mongo
                (snd (updateBooking mongo snackDb (requestBy customer ''booking-1'' cancelRefunded)))
                (requestBy customer ''booking-1'' cancelRefunded)))) =
     [(''prov'', ''compensation'', 1), (''prov'', ''compensation'', 1)]"
  by code_simp

text \<open>
  The same test lets two more replays write the refund twice. A body that carries
  \<open>refundAmount = 0\<close> resets the recorded refund on every call. A body whose other fields
  fail the validation of the booking ends in status 400 after the refund has been
  written, and the recorded refund is not saved.
\<close>

lemma refund_replay_with_zero_refundAmount:
  "map ledgerEntry
     (transactions
        (snd (updateBooking mongo
                (snd (updateBooking mongo dinnerDb
                        (requestBy provider ''booking-1'' (cancelRefunded\<lparr>q_refundAmount := Numeric 0\<rparr>))))
                (requestBy provider ''booking-1'' (cancelRefunded\<lparr>q_refundAmount := Numeric 0\<rparr>))))) =
     [(''cust'', ''refund'', 1001), (''cust'', ''refund'', 1001)]"
  by code_simp

lemma refund_replay_after_failed_save:
  "fst (updateBooking mongo dinnerDb
          (requestBy provider ''booking-1'' (cancelRefunded\<lparr>q_totalHours := Numeric 0\<rparr>))) =
     Failure 400 ''Validation failed'' \<and>
   map ledgerEntry
     (transactions
        (snd (updateBooking mongo
                (snd (updateBooking mongo dinnerDb
                        (requestBy provider ''booking-1'' (cancelRefunded\<lparr>q_totalHours := Numeric 0\<rparr>))))
                (requestBy provider ''booking-1'' (cancelRefunded\<lparr>q_totalHours := Numeric 0\<rparr>))))) =
     [(''cust'', ''refund'', 1001), (''cust'', ''refund'', 1001)]"
  by code_simp

subsection \<open>The lookup for an earlier earning\<close>

text \<open>
  The lookup asks for a transaction of type \<open>topup\<close>. Without \<open>strictQuery\<close> it finds
  nothing among documents of the Transaction model, which carry no type.
\<close>

lemma Transaction_findOne_untyped:
  assumes "\<not> strictQuery e" and "\<And>t. t \<in> set (transactions d) \<Longrightarrow> t_type t = None"
  shows "Transaction_findOne e d cid ty pattern = None"
  using assms by (auto simp: Transaction_findOne_def find_None_iff)

text \<open>
  Claim C4 fails on the code. The provider completes a paid booking and sends the same
  request once more. The earning that the first call writes is stored without its type,
  the lookup of the second call finds nothing, and the second call writes a second
  earning: the provider is credited twice for one booking.
\<close>

theorem earning_replay_credits_twice:
  "succeeded (fst (updateBooking mongo dinnerDb (requestBy provider ''booking-1'' completePaid))) \<and>
   map t_type
     (transactions (snd (updateBooking mongo dinnerDb (requestBy provider ''booking-1'' completePaid)))) =
     [None] \<and>
   succeeded (fst (updateBooking mongo
                     (snd (updateBooking mongo dinnerDb (requestBy provider ''booking-1'' completePaid)))
                     (requestBy provider ''booking-1'' completePaid))) \<and>
   map b_status
     (bookings
        (snd (updateBooking mongo
                (snd (updateBooking mongo dinnerDb (requestBy provider ''booking-1'' completePaid)))
                (requestBy provider ''booking-1'' completePaid)))) =
     [''completed''] \<and>
   map ledgerEntry
     (transactions
        (snd (updateBooking mongo
                (snd (updateBooking mongo dinnerDb (requestBy provider ''booking-1'' completePaid)))
                (requestBy provider ''booking-1'' completePaid)))) =
     [(''prov'', ''earning'', 901), (''prov'', ''earning'', 901)]"
  by code_simp

text \<open>
  With \<open>strictQuery\<close> the lookup is by provider and service name only. The replay is then
  recognised, but of two bookings of the same provider with the same service name, both
  completed and paid, the second receives no earning.
\<close>

lemma earning_lookup_with_strictQuery:
  "map ledgerEntry
     (transactions
        (snd (updateBooking mongoStrictQuery
                (snd (updateBooking mongoStrictQuery dinnerDb (requestBy provider ''booking-1'' completePaid)))
                (requestBy provider ''booking-1'' completePaid)))) =
     [(''prov'', ''earning'', 901)] \<and>
   map b_status
     (bookings
        (snd (updateBooking mongoStrictQuery
                (snd (updateBooking mongoStrictQuery twoDinnersDb (requestBy provider ''booking-1'' completePaid)))
                (requestBy provider ''booking-2'' completePaid)))) =
     [''completed'', ''completed''] \<and>
   map ledgerEntry
     (transactions
        (snd (updateBooking mongoStrictQuery
                (snd (updateBooking mongoStrictQuery twoDinnersDb (requestBy provider ''booking-1'' completePaid)))
                (requestBy provider ''booking-2'' completePaid)))) =
     [(''prov'', ''earning'', 901)]"
  by code_simp

subsection \<open>A ledger write that fails\<close>

text \<open>
  Claim C6. Let the request reach the side effects of \<open>updateBooking\<close> with the booking
  \<open>b\<close>. If the Transaction model throws on the refund record or on the compensation
  record that the refund block writes for \<open>b\<close>, or on the earning record that the earning
  block writes for \<open>b\<close>, then the response is a failure and the stored bookings are what
  they were: the new status and payment status are not saved.
\<close>

theorem ledger_write_failure_fails_update:
  assumes u: "user req = Some u" and b0: "Booking_findById d (params_id req) = Some b0"
      and acc: "canAccessBooking b0 u" and asg: "assignFields (body req) u b0 = Inr b"
      and rs: "refundSplit b = (refundAmount, providerCompensation, b1)"
      and rej: "(refundDue b \<and> \<not> alreadyProcessed b \<and>
                 (0 < refundAmount \<and> txCreate e (refundTransaction b1 refundAmount) \<noteq> None \<or>
                  0 < providerCompensation \<and>
                  txCreate e (compensationTransaction b1 providerCompensation) \<noteq> None)) \<or>
                (b_status b = ''completed'' \<and> b_paymentStatus b = ''paid'' \<and>
                 Transaction_findOne e d (b_providerId b) ''topup'' (earningNote b) = None \<and>
                 txCreate e (earningTransaction b) \<noteq> None)"
  shows "\<not> succeeded (fst (updateBooking e d req)) \<and>
         bookings (snd (updateBooking e d req)) = bookings d \<and>
         Booking_findById (snd (updateBooking e d req)) (params_id req) = Some b0"
proof -
  have "\<exists>err d1. ledgerSideEffects e d b = Inl (err, d1) \<and> bookings d1 = bookings d"
    using rej
  proof
    assume "refundDue b \<and> \<not> alreadyProcessed b \<and>
                 (0 < refundAmount \<and> txCreate e (refundTransaction b1 refundAmount) \<noteq> None \<or>
                  0 < providerCompensation \<and>
                  txCreate e (compensationTransaction b1 providerCompensation) \<noteq> None)"
    with processRefund_rejected[OF _ _ rs, of e d] show ?thesis
      by (auto simp: ledgerSideEffects_def)
  next
    assume a: "b_status b = ''completed'' \<and> b_paymentStatus b = ''paid'' \<and>
                 Transaction_findOne e d (b_providerId b) ''topup'' (earningNote b) = None \<and>
                 txCreate e (earningTransaction b) \<noteq> None"
    then have "\<not> refundDue b" by (simp add: refundDue_def)
    then have "processRefund e d b = Inr (d, b)" by (simp add: processRefund_skip)
    moreover from a processEarning_rejected[of b e d]
    obtain err where "processEarning e d b = Inl (err, d)" by blast
    ultimately show ?thesis by (simp add: ledgerSideEffects_def)
  qed
  then obtain err d1 where l: "ledgerSideEffects e d b = Inl (err, d1)"
    and bd: "bookings d1 = bookings d" by blast
  from u b0 acc asg l have "updateBooking e d req = (errorResponse err, d1)"
    by (simp add: updateBooking_def)
  with bd b0 show ?thesis
    by (simp add: errorResponse_failed Booking_findById_def)
qed

theorem ledger_write_failure_fails_update_witness:
  "\<not> succeeded (fst (updateBooking ledgerDown dinnerDb
                        (requestBy customer ''booking-1'' cancelRefunded))) \<and>
   Booking_findById (snd (updateBooking ledgerDown dinnerDb
                        (requestBy customer ''booking-1'' cancelRefunded))) ''booking-1'' =
     Some dinner"
proof -
  define req where "req = requestBy customer ''booking-1'' cancelRefunded"
  define b where "b = dinner\<lparr>b_status := ''cancelled'', b_paymentStatus := ''refunded'',
                            b_cancelledBy := Some ''customer''\<rparr>"
  have u: "user req = Some customer" and i: "params_id req = ''booking-1''"
    by (simp_all add: req_def requestBy_def)
  have b0: "Booking_findById dinnerDb (params_id req) = Some dinner"
    unfolding req_def by code_simp
  have acc: "canAccessBooking dinner customer"
    by code_simp
  have asg: "assignFields (body req) customer dinner = Inr b"
    unfolding req_def b_def by code_simp
  have rs: "refundSplit b = (500, 501, b\<lparr>b_refundAmount := Some 500\<rparr>)"
    unfolding b_def by code_simp
  have due: "refundDue b" and fresh: "\<not> alreadyProcessed b"
    unfolding b_def by code_simp+
  have rej: "txCreate ledgerDown (refundTransaction (b\<lparr>b_refundAmount := Some 500\<rparr>) 500) \<noteq> None"
    by (simp add: ledgerDown_def)
  from due fresh rej
  have "(refundDue b \<and> \<not> alreadyProcessed b \<and>
          ((0::rat) < 500 \<and> txCreate ledgerDown (refundTransaction (b\<lparr>b_refundAmount := Some 500\<rparr>) 500) \<noteq> None \<or>
           (0::rat) < 501 \<and>
           txCreate ledgerDown (compensationTransaction (b\<lparr>b_refundAmount := Some 500\<rparr>) 501) \<noteq> None)) \<or>
         (b_status b = ''completed'' \<and> b_paymentStatus b = ''paid'' \<and>
          Transaction_findOne ledgerDown dinnerDb (b_providerId b) ''topup'' (earningNote b) = None \<and>
          txCreate ledgerDown (earningTransaction b) \<noteq> None)"
    by simp
  from ledger_write_failure_fails_update[OF u b0 acc asg rs this] i
  show ?thesis by (simp add: req_def)
qed

subsection \<open>A refund amount supplied by the request\<close>

text \<open>
  Claim C9. A request that carries a positive numeric \<open>refundAmount\<close> together with status
  \<open>cancelled\<close> and payment status \<open>refunded\<close> or \<open>partially_refunded\<close> writes no
  transaction at all: the amount from the body is assigned to the booking, so that the
  refund block is due but finds the refund already processed, whatever the stored booking
  recorded before. When the update succeeds the supplied amount is stored with the booking.
\<close>

theorem supplied_refundAmount_counts_as_processed:
  assumes ra: "q_refundAmount (body req) = Numeric r" and pos: "0 < r"
      and st: "q_status (body req) = Some ''cancelled''"
      and ps: "q_paymentStatus (body req) = Some ''refunded'' \<or>
               q_paymentStatus (body req) = Some ''partially_refunded''"
  shows "transactions (snd (updateBooking e d req)) = transactions d \<and>
         (\<forall>u b0 b. user req = Some u \<and> Booking_findById d (params_id req) = Some b0 \<and>
                   assignFields (body req) u b0 = Inr b \<longrightarrow>
                   b_refundAmount b = Some r \<and> refundDue b \<and> alreadyProcessed b) \<and>
         (\<forall>c bk ch. fst (updateBooking e d req) = Success c (bk, ch) \<longrightarrow>
                   b_refundAmount bk = Some r \<and>
                   Booking_findById (snd (updateBooking e d req)) (params_id req) = Some bk)"
proof -
  have A: "b_refundAmount b = Some r \<and> refundDue b \<and> alreadyProcessed b \<and> b_status b = ''cancelled''"
    if "assignFields (body req) u b0 = Inr b" for u b0 b
  proof -
    from assignFields_fields[OF that] ra st ps
    have "b_refundAmount b = Some r" "b_status b = ''cancelled''"
         "b_paymentStatus b = ''refunded'' \<or> b_paymentStatus b = ''partially_refunded''"
      by auto
    moreover from assignFields_cancelled[OF that st]
    have "case b_cancelledBy b of None \<Rightarrow> False | Some c \<Rightarrow> c \<noteq> []" by auto
    ultimately show ?thesis using pos by (simp add: refundDue_def alreadyProcessed_def)
  qed
  have 1: "transactions (snd (updateBooking e d req)) = transactions d"
    by (rule updateBooking_no_ledger_write) (use A in auto)
  have 3: "b_refundAmount bk = Some r \<and>
           Booking_findById (snd (updateBooking e d req)) (params_id req) = Some bk"
    if s: "fst (updateBooking e d req) = Success c (bk, ch)" for c bk ch
  proof -
    from s have upd: "updateBooking e d req = (Success c (bk, ch), snd (updateBooking e d req))"
      by (simp add: prod_eq_iff)
    from updateBooking_success[OF upd] obtain u b0 b d2 b2 where
      u: "user req = Some u" and b0: "Booking_findById d (params_id req) = Some b0" and
      asg: "assignFields (body req) u b0 = Inr b" and
      led: "ledgerSideEffects e d b = Inr (d2, b2)" and
      sav: "Booking_save d2 b2 = Inr (snd (updateBooking e d req))" and
      dat: "(bk, ch) = formatBookingResponse b2 (Chat_findOne (snd (updateBooking e d req)) (b_id b2))"
      by metis
    from A[OF asg] have "ledgerSideEffects e d b = Inr (d, b)"
      by (intro ledgerSideEffects_skip) auto
    with led have e: "d2 = d" "b2 = b" by simp_all
    from dat e have bk: "bk = b" by (simp add: formatBookingResponse_def)
    have "b_id b0 = params_id req"
      using b0 unfolding Booking_findById_def by (rule find_Some_key)
    with assignFields_fields[OF asg] have "b_id b = params_id req" by simp
    from Booking_save_find[OF sav[unfolded e] b0 this] A[OF asg] bk show ?thesis by simp
  qed
  from 1 A 3 show ?thesis by blast
qed

theorem supplied_refundAmount_counts_as_processed_witness:
  "transactions (snd (updateBooking mongo dinnerDb
      (requestBy customer ''booking-1'' (cancelRefunded\<lparr>q_refundAmount := Numeric 250\<rparr>)))) = [] \<and>
   Booking_findById (snd (updateBooking mongo dinnerDb
      (requestBy customer ''booking-1'' (cancelRefunded\<lparr>q_refundAmount := Numeric 250\<rparr>)))) ''booking-1'' =
     Some (dinner\<lparr>b_status := ''cancelled'', b_paymentStatus := ''refunded'',
                  b_cancelledBy := Some ''customer'', b_refundAmount := Some 250\<rparr>)"
proof -
  define req where
    "req = requestBy customer ''booking-1'' (cancelRefunded\<lparr>q_refundAmount := Numeric 250\<rparr>)"
  define bk where "bk = dinner\<lparr>b_status := ''cancelled'', b_paymentStatus := ''refunded'',
                  b_cancelledBy := Some ''customer'', b_refundAmount := Some 250\<rparr>"
  have ra: "q_refundAmount (body req) = Numeric 250"
    and st: "q_status (body req) = Some ''cancelled''"
    and ps: "q_paymentStatus (body req) = Some ''refunded'' \<or>
             q_paymentStatus (body req) = Some ''partially_refunded''"
    and i: "params_id req = ''booking-1''"
    by (simp_all add: req_def requestBy_def cancelRefunded_def noChange_def)
  have pos: "(0::rat) < 250" by simp
  have ok: "fst (updateBooking mongo dinnerDb req) = Success 200 (bk, None)"
    unfolding req_def bk_def by code_simp
  have t0: "transactions dinnerDb = []"
    by (simp add: dinnerDb_def emptyDb_def)
  from supplied_refundAmount_counts_as_processed[OF ra pos st ps, of mongo dinnerDb] ok t0 i
  show ?thesis
    unfolding req_def bk_def by simp
qed

subsection \<open>Reading a single booking\<close>

text \<open>
  Claim C10. \<open>getBooking\<close> answers every authenticated user with status 200 and the whole
  booking, whoever the user is: the handler never compares the user with the customer or
  the provider of the booking and never looks at the user's role.
\<close>

theorem getBooking_any_authenticated_user:
  assumes "user req = Some u" and "Booking_findById d (params_id req) = Some b"
  shows "getBooking d req = Success 200 (b, map_option c_id (Chat_findOne d (b_id b)))"
  using assms by (simp add: getBooking_def formatBookingResponse_def)

theorem getBooking_any_authenticated_user_witness:
  "\<not> canAccessBooking dinner stranger \<and> u_type stranger \<noteq> ''admin'' \<and>
   getBooking dinnerDb (requestBy stranger ''booking-1'' ()) = Success 200 (dinner, None)"
proof -
  have u: "user (requestBy stranger ''booking-1'' ()) = Some stranger"
    by (simp add: requestBy_def)
  have b: "Booking_findById dinnerDb (params_id (requestBy stranger ''booking-1'' ())) = Some dinner"
    by code_simp
  have c: "Chat_findOne dinnerDb (b_id dinner) = None"
    by code_simp
  have n: "\<not> canAccessBooking dinner stranger \<and> u_type stranger \<noteq> ''admin''"
    by code_simp
  from getBooking_any_authenticated_user[OF u b] c n show ?thesis by simp
qed

section \<open>Properties of the transactions controller\<close>













section \<open>Properties of the withdrawals controller\<close>

text \<open>
  The balance that \<open>createWithdrawal\<close> derives is 0 for every user and every ledger: the
  reducer adds and subtracts by \<open>t.type\<close>, which no document of the Transaction model
  carries. Hence every request that passes the test on the amount is answered with the
  insufficient-balance error, and no request creates a withdrawal.
\<close>

lemma foldl_balanceStep_untyped:
  "foldl balanceStep subtotal (map TransactionSchema_paths ts) = subtotal"
  by (induction ts arbitrary: subtotal) (simp_all add: balanceStep_def TransactionSchema_paths_def)

lemma derivedBalance_zero: "derivedBalance d userId = 0"
  by (simp add: derivedBalance_def Transaction_find_def foldl_balanceStep_untyped)

lemma createWithdrawal_never_succeeds:
  "\<not> succeeded (fst (createWithdrawal e d req)) \<and> snd (createWithdrawal e d req) = d"
  by (auto simp: createWithdrawal_def derivedBalance_zero split: option.splits)

text \<open>
  Claim C7 fails on the code. The provider has completed the paid dinner, for which
  \<open>updateBooking\<close> has written an earning of 901, passed with type \<open>topup\<close>. The provider
  asks for a withdrawal of 500 with complete bank details. The stored earning has no
  type, the derived balance is 0, and the answer is the insufficient-balance error;
  neither a withdrawal nor a transaction is created.
\<close>

theorem createWithdrawal_refuses_earned_balance:
  "map ledgerEntry (transactions earned) = [(''prov'', ''earning'', 901)] \<and>
   t_type (earningTransaction (dinner\<lparr>b_status := ''completed''\<rparr>)) = Some ''topup'' \<and>
   map t_type (Transaction_find earned ''prov'') = [None] \<and>
   derivedBalance earned ''prov'' = 0 \<and>
   fst (createWithdrawal mongo earned (requestBy provider [] (withdraw 500))) =
     Failure 400 ''Insufficient balance for withdrawal'' \<and>
   withdrawals (snd (createWithdrawal mongo earned (requestBy provider [] (withdraw 500)))) = [] \<and>
   map ledgerEntry
     (transactions (snd (createWithdrawal mongo earned (requestBy provider [] (withdraw 500))))) =
     [(''prov'', ''earning'', 901)]"
  by code_simp

section \<open>Properties of the reviews controller\<close>

lemma nearest_hundredth:
  fixes y :: rat
  defines "m \<equiv> \<lfloor>y * 100 + 1 / 2\<rfloor>"
  shows "\<bar>of_int m / 100 - y\<bar> \<le> 1 / 200"
proof -
  have "of_int m \<le> y * 100 + 1 / 2" "y * 100 + 1 / 2 < of_int m + 1"
    unfolding m_def by linarith+
  then have "- (1 / 2) \<le> of_int m - y * 100" "of_int m - y * 100 \<le> 1 / 2"
    by linarith+
  then have "\<bar>of_int m - y * 100\<bar> \<le> 1 / 2" by linarith
  moreover have "of_int m / 100 - y = (of_int m - y * 100) / 100" by (simp add: field_simps)
  ultimately show ?thesis by linarith
qed

lemma toFixed2_nearest:
  "\<exists>k::int. toFixed2 x = of_int k / 100 \<and> \<bar>toFixed2 x - x\<bar> \<le> 1 / 200"
proof (cases "x < 0")
  case False
  then have t: "toFixed2 x = of_int \<lfloor>x * 100 + 1 / 2\<rfloor> / 100"
    by (simp add: toFixed2_def)
  have "\<bar>toFixed2 x - x\<bar> \<le> 1 / 200"
    unfolding t by (rule nearest_hundredth)
  with t show ?thesis by blast
next
  case True
  then have t: "toFixed2 x = - (of_int \<lfloor>- x * 100 + 1 / 2\<rfloor> / 100)"
    by (simp add: toFixed2_def)
  have "\<bar>of_int \<lfloor>- x * 100 + 1 / 2\<rfloor> / 100 - (- x)\<bar> \<le> 1 / 200"
    by (rule nearest_hundredth)
  then have 1: "\<bar>toFixed2 x - x\<bar> \<le> 1 / 200"
    unfolding t by linarith
  have "toFixed2 x = of_int (- \<lfloor>- x * 100 + 1 / 2\<rfloor>) / 100"
    unfolding t by simp
  with 1 show ?thesis by blast
qed

lemma find_map_update:
  "find (\<lambda>x. key x = k) xs = Some y \<Longrightarrow> (\<And>x. key (f x) = key x) \<Longrightarrow>
   find (\<lambda>x. key x = k) (map (\<lambda>x. if key x = k then f x else x) xs) = Some (f y)"
  by (induction xs) (auto split: if_splits)

lemma Service_findByIdAndUpdate_find:
  assumes "Service_findById d i = Some s"
  shows "Service_findById (Service_findByIdAndUpdate d i avg cnt) i =
           Some (s\<lparr>s_rating := avg, s_reviewCount := cnt\<rparr>)"
  using find_map_update[of s_id i "services d" s "\<lambda>s. s\<lparr>s_rating := avg, s_reviewCount := cnt\<rparr>"]
        assms
  by (simp add: Service_findById_def Service_findByIdAndUpdate_def)

lemma serviceRatings_findByIdAndUpdate:
  "serviceRatings (Service_findByIdAndUpdate d i avg cnt) j = serviceRatings d j"
  by (simp add: serviceRatings_def Service_findByIdAndUpdate_def)

lemma reviews_findByIdAndUpdate:
  "reviews (Service_findByIdAndUpdate d i avg cnt) = reviews d"
  by (simp add: Service_findByIdAndUpdate_def)

lemma updateServiceReviewStats_current:
  assumes "serviceId \<noteq> []" "Service_findById d serviceId = Some s"
  shows "reviewStatsCurrent (updateServiceReviewStats d serviceId) serviceId"
  using assms(1) Service_findByIdAndUpdate_find[OF assms(2), unfolded Service_findById_def]
  by (auto simp: updateServiceReviewStats_def Let_def reviewStatsCurrent_def
                 serviceRatings_def reviews_findByIdAndUpdate)

lemma reviews_updateServiceReviewStats:
  "reviews (updateServiceReviewStats d i) = reviews d"
  by (simp add: updateServiceReviewStats_def Let_def Service_findByIdAndUpdate_def)

lemma createReview_current:
  assumes "createReview e d req = (Success c rv, d')"
  shows "\<exists>r. rv = Some r \<and> reviewStatsCurrent d' (r_serviceId r) \<and>
             reviews d' = reviews d @ [r]"
proof -
  from assms obtain u where u: "user req = Some u"
    by (cases "user req") (auto simp: createReview_def)
  let ?sid = "orElse (rq_serviceId (body req)) []"
  let ?bid = "orElse (rq_bookingId (body req)) []"
  from assms u have g1: "\<not> (u_type u \<noteq> ''customer'' \<and> u_type u \<noteq> ''admin'')" "?bid \<noteq> []"
    by (auto simp: createReview_def split: if_splits)
  from assms u g1 obtain s where s: "Service_findById d ?sid = Some s"
    by (cases "Service_findById d ?sid") (auto simp: createReview_def)
  from assms u g1 s obtain b where b: "Booking_findById d ?bid = Some b"
    by (cases "Booking_findById d ?bid") (auto simp: createReview_def)
  from assms u g1 s b have g2: "b_serviceId b = s_id s"
    by (auto simp: createReview_def split: if_splits)
  from assms u g1 s b g2 obtain rating where rt: "toNumber (rq_rating (body req)) = Some rating"
    by (cases "toNumber (rq_rating (body req))") (auto simp: createReview_def split: if_splits)
  let ?r = "\<lparr>r_id = uuid e, r_bookingId = b_id b, r_serviceId = b_serviceId b,
             r_customerId = b_customerId b, r_rating = rating,
             r_comment = trim (case rq_comment (body req) of None \<Rightarrow> [] | Some c \<Rightarrow> c)\<rparr>"
  from assms u g1 s b g2 rt obtain d1 where c: "Review_create d ?r = Inr d1"
    by (cases "Review_create d ?r")
       (auto simp: createReview_def Let_def reviewErrorResponse_def split: if_splits dbError.splits)
  from assms u g1 s b g2 rt c have res: "rv = Some ?r" "d' = updateServiceReviewStats d1 (r_serviceId ?r)"
    by (auto simp: createReview_def Let_def split: if_splits)
  from c have d1: "validateReview ?r" "d1 = d\<lparr>reviews := reviews d @ [?r]\<rparr>"
    by (auto simp: Review_create_def split: if_splits)
  from d1(1) have ne: "b_serviceId b \<noteq> []" by (simp add: validateReview_def)
  from s have "s_id s = ?sid" unfolding Service_findById_def by (rule find_Some_key)
  with s g2 d1(2) have "Service_findById d1 (b_serviceId b) = Some s"
    by (simp add: Service_findById_def)
  from updateServiceReviewStats_current[OF ne this] res d1(2)
  show ?thesis by (simp add: reviews_updateServiceReviewStats)
qed

lemma updateReview_current:
  assumes upd: "updateReview d req = (Success c rv, d')"
      and rt: "rq_rating (body req) \<noteq> Undefined"
      and r0: "Review_findById d (params_id req) = Some r0"
      and s: "Service_findById d (r_serviceId r0) = Some s"
  shows "reviewStatsCurrent d' (r_serviceId r0)"
proof -
  from upd obtain u where u: "user req = Some u"
    by (cases "user req") (auto simp: updateReview_def)
  let ?r1 = "case toNumber (rq_rating (body req)) of
               None \<Rightarrow> r0 | Some rating \<Rightarrow> r0\<lparr>r_rating := rating\<rparr>"
  let ?r2 = "case rq_comment (body req) of None \<Rightarrow> ?r1 | Some c \<Rightarrow> ?r1\<lparr>r_comment := trim c\<rparr>"
  have sid: "r_serviceId ?r2 = r_serviceId r0"
    by (simp split: option.splits)
  from upd u r0 rt obtain d1 where sv: "Review_save d ?r2 = Inr d1"
    by (cases "Review_save d ?r2") (auto simp: updateReview_def Let_def split: if_splits)
  from upd u r0 rt sv have res: "d' = updateServiceReviewStats d1 (r_serviceId ?r2)"
    by (auto simp: updateReview_def Let_def split: if_splits)
  from sv have v: "validateReview ?r2" "services d1 = services d"
    by (auto simp: Review_save_def split: if_splits)
  from v(1) sid have ne: "r_serviceId r0 \<noteq> []"
    by (simp add: validateReview_def)
  from s v(2) have "Service_findById d1 (r_serviceId r0) = Some s"
    by (simp add: Service_findById_def)
  from updateServiceReviewStats_current[OF ne this] res sid show ?thesis by simp
qed

lemma deleteReview_current:
  assumes del: "deleteReview d req = (Success c rv, d')"
      and r0: "Review_findById d (params_id req) = Some r0"
      and ne: "r_serviceId r0 \<noteq> []"
      and s: "Service_findById d (r_serviceId r0) = Some s"
  shows "reviewStatsCurrent d' (r_serviceId r0) \<and>
         reviews d' = filter (\<lambda>x. r_id x \<noteq> r_id r0) (reviews d)"
proof -
  from del obtain u where u: "user req = Some u"
    by (cases "user req") (auto simp: deleteReview_def)
  from del u r0 have res: "d' = updateServiceReviewStats (Review_deleteOne d r0) (r_serviceId r0)"
    by (auto simp: deleteReview_def split: if_splits)
  from s have "Service_findById (Review_deleteOne d r0) (r_serviceId r0) = Some s"
    by (simp add: Service_findById_def Review_deleteOne_def)
  from updateServiceReviewStats_current[OF ne this] res show ?thesis
    by (simp add: reviews_updateServiceReviewStats Review_deleteOne_def)
qed

text \<open>
  Claim C8. After a review has been created, after the rating of a review has been
  updated, and after a review has been deleted, the service of the review carries the
  number of the remaining reviews of that service as \<open>reviewCount\<close> and the mean of
  their ratings, rounded to two decimal places, as \<open>rating\<close>; with no review left both
  are 0. The rounding \<open>toFixed2\<close> yields a multiple of 0.01 that is at most 0.005 away
  from its argument. For an update and a deletion the service is assumed to exist still.
\<close>

theorem review_stats_recomputed:
  "(createReview e d req = (Success c (Some r), d1) \<longrightarrow>
      reviewStatsCurrent d1 (r_serviceId r) \<and> reviews d1 = reviews d @ [r]) \<and>
   (updateReview d req2 = (Success c2 rv2, d2) \<and> rq_rating (body req2) \<noteq> Undefined \<and>
    Review_findById d (params_id req2) = Some r2 \<and>
    Service_findById d (r_serviceId r2) \<noteq> None \<longrightarrow>
      reviewStatsCurrent d2 (r_serviceId r2)) \<and>
   (deleteReview d req3 = (Success c3 rv3, d3) \<and>
    Review_findById d (params_id req3) = Some r3 \<and> r_serviceId r3 \<noteq> [] \<and>
    Service_findById d (r_serviceId r3) \<noteq> None \<longrightarrow>
      reviewStatsCurrent d3 (r_serviceId r3) \<and>
      reviews d3 = filter (\<lambda>x. r_id x \<noteq> r_id r3) (reviews d)) \<and>
   (\<exists>k::int. toFixed2 x = of_int k / 100 \<and> \<bar>toFixed2 x - x\<bar> \<le> 1 / 200)"
proof -
  have A: "reviewStatsCurrent d1 (r_serviceId r) \<and> reviews d1 = reviews d @ [r]"
    if "createReview e d req = (Success c (Some r), d1)"
    using createReview_current[OF that] by simp
  have B: "reviewStatsCurrent d2 (r_serviceId r2)"
    if "updateReview d req2 = (Success c2 rv2, d2) \<and> rq_rating (body req2) \<noteq> Undefined \<and>
        Review_findById d (params_id req2) = Some r2 \<and>
        Service_findById d (r_serviceId r2) \<noteq> None"
    using that updateReview_current[of d req2 c2 rv2 d2 r2] by auto
  have C: "reviewStatsCurrent d3 (r_serviceId r3) \<and>
           reviews d3 = filter (\<lambda>x. r_id x \<noteq> r_id r3) (reviews d)"
    if "deleteReview d req3 = (Success c3 rv3, d3) \<and>
        Review_findById d (params_id req3) = Some r3 \<and> r_serviceId r3 \<noteq> [] \<and>
        Service_findById d (r_serviceId r3) \<noteq> None"
    using that deleteReview_current[of d req3 c3 rv3 d3 r3] by auto
  from A B C toFixed2_nearest[of x] show ?thesis by blast
qed

text \<open>
  Two services with reviews of their own: the dinner with one rating of 5, the lunch with
  the ratings 1 and 2. A second review of the dinner, with rating 4, gives the dinner the
  rating 4.5 and the count 2; a change of the first rating to 3 gives 3 and 1; the
  deletion of the first review gives 0 and 0. The lunch keeps its rating 1.5 and its
  count 2 throughout.
\<close>

theorem review_stats_recomputed_witness:
  "reviewStatsCurrent (snd (createReview mongo reviewDb (requestBy customer [] (rate 4)))) ''svc'' \<and>
   serviceStats (snd (createReview mongo reviewDb (requestBy customer [] (rate 4)))) =
     [(''svc'', 9 / 2, 2), (''svc-2'', 3 / 2, 2)] \<and>
   map r_rating (reviews (snd (createReview mongo reviewDb (requestBy customer [] (rate 4))))) =
     [1, 5, 2, 4] \<and>
   reviewStatsCurrent (snd (updateReview reviewDb (requestBy admin ''review-1'' (rate 3)))) ''svc'' \<and>
   serviceStats (snd (updateReview reviewDb (requestBy admin ''review-1'' (rate 3)))) =
     [(''svc'', 3, 1), (''svc-2'', 3 / 2, 2)] \<and>
   reviewStatsCurrent (snd (deleteReview reviewDb (requestBy admin ''review-1'' ()))) ''svc'' \<and>
   serviceStats (snd (deleteReview reviewDb (requestBy admin ''review-1'' ()))) =
     [(''svc'', 0, 0), (''svc-2'', 3 / 2, 2)]"
proof -
  define r where "r = \<lparr>r_id = ''review-new'', r_bookingId = ''booking-1'', r_serviceId = ''svc'',
                        r_customerId = ''cust'', r_rating = 4, r_comment = ''Good''\<rparr>"
  have "fst (createReview mongo reviewDb (requestBy customer [] (rate 4))) = Success 201 (Some r)"
    unfolding r_def by code_simp
  then have c: "createReview mongo reviewDb (requestBy customer [] (rate 4)) =
      (Success 201 (Some r), snd (createReview mongo reviewDb (requestBy customer [] (rate 4))))"
    by (simp add: prod_eq_iff)
  have "fst (updateReview reviewDb (requestBy admin ''review-1'' (rate 3))) =
          Success 200 (Some (earlierReview\<lparr>r_rating := 3, r_comment := ''Good''\<rparr>))"
    by code_simp
  then have u: "updateReview reviewDb (requestBy admin ''review-1'' (rate 3)) =
      (Success 200 (Some (earlierReview\<lparr>r_rating := 3, r_comment := ''Good''\<rparr>)),
       snd (updateReview reviewDb (requestBy admin ''review-1'' (rate 3))))"
    by (simp add: prod_eq_iff)
  have "fst (deleteReview reviewDb (requestBy admin ''review-1'' ())) = Success 200 None"
    by code_simp
  then have dl: "deleteReview reviewDb (requestBy admin ''review-1'' ()) =
      (Success 200 None, snd (deleteReview reviewDb (requestBy admin ''review-1'' ())))"
    by (simp add: prod_eq_iff)
  have h2: "rq_rating (body (requestBy admin ''review-1'' (rate 3))) \<noteq> Undefined \<and>
            Review_findById reviewDb (params_id (requestBy admin ''review-1'' (rate 3))) = Some earlierReview \<and>
            Service_findById reviewDb (r_serviceId earlierReview) \<noteq> None"
    by code_simp
  have h3: "Review_findById reviewDb (params_id (requestBy admin ''review-1'' ())) = Some earlierReview \<and>
            r_serviceId earlierReview \<noteq> [] \<and>
            Service_findById reviewDb (r_serviceId earlierReview) \<noteq> None"
    by code_simp
  have ids: "r_serviceId r = ''svc''" "r_serviceId earlierReview = ''svc''"
    by (simp_all add: r_def earlierReview_def)
  have rs: "serviceStats (snd (createReview mongo reviewDb (requestBy customer [] (rate 4)))) =
              [(''svc'', 9 / 2, 2), (''svc-2'', 3 / 2, 2)]"
     "map r_rating (reviews (snd (createReview mongo reviewDb (requestBy customer [] (rate 4))))) =
              [1, 5, 2, 4]"
     "serviceStats (snd (updateReview reviewDb (requestBy admin ''review-1'' (rate 3)))) =
              [(''svc'', 3, 1), (''svc-2'', 3 / 2, 2)]"
     "serviceStats (snd (deleteReview reviewDb (requestBy admin ''review-1'' ()))) =
              [(''svc'', 0, 0), (''svc-2'', 3 / 2, 2)]"
    by code_simp+
  note T = review_stats_recomputed[of mongo reviewDb "requestBy customer [] (rate 4)" 201 r
             "snd (createReview mongo reviewDb (requestBy customer [] (rate 4)))"
             "requestBy admin ''review-1'' (rate 3)" 200
             "Some (earlierReview\<lparr>r_rating := 3, r_comment := ''Good''\<rparr>)"
             "snd (updateReview reviewDb (requestBy admin ''review-1'' (rate 3)))" earlierReview
             "requestBy admin ''review-1'' ()" 200 None
             "snd (deleteReview reviewDb (requestBy admin ''review-1'' ()))" earlierReview 0]
  from T c u dl h2 h3 ids rs show ?thesis by simp
qed

end
